theory Spec2Isabelle
  imports Complex_Main "HOL-Library.Word" "HOL-Library.Sublist"
begin

section \<open>JavaScript strings and the built-ins the source calls\<close>

text \<open>
  A JavaScript string (the value of the textarea, a template literal, a class name) is a
  sequence of 16-bit code units. Every literal of the source is ASCII, so a literal is
  written as an Isabelle string and widened by \<open>lit\<close>.
\<close>

type_synonym code_unit = "16 word"
type_synonym jsstring = "code_unit list"

definition lit :: "string \<Rightarrow> jsstring" where
  "lit s = map of_char s"

text \<open>
  \<^verbatim>\<open>String.prototype.trim\<close> removes leading and trailing WhiteSpace and LineTerminator
  code points: TAB, LF, VT, FF, CR, SP, NBSP, the other space separators of Unicode
  (U+1680, U+2000 to U+200A, U+202F, U+205F, U+3000), LS, PS and U+FEFF.
\<close>

definition isTrimSpace :: "code_unit \<Rightarrow> bool" where
  "isTrimSpace c \<longleftrightarrow>
     c = 0x09 \<or> c = 0x0A \<or> c = 0x0B \<or> c = 0x0C \<or> c = 0x0D \<or> c = 0x20 \<or> c = 0xA0 \<or>
     c = 0x1680 \<or> (0x2000 \<le> c \<and> c \<le> 0x200A) \<or> c = 0x2028 \<or> c = 0x2029 \<or>
     c = 0x202F \<or> c = 0x205F \<or> c = 0x3000 \<or> c = 0xFEFF"

definition trim :: "jsstring \<Rightarrow> jsstring" where
  "trim s = rev (dropWhile isTrimSpace (rev (dropWhile isTrimSpace s)))"

text \<open>\<^verbatim>\<open>Array.prototype.join\<close> on an array of strings.\<close>

fun join :: "jsstring \<Rightarrow> jsstring list \<Rightarrow> jsstring" where
  "join sep [] = []"
| "join sep [x] = x"
| "join sep (x # y # ys) = x @ sep @ join sep (y # ys)"

text \<open>
  Number to string, as a template literal does it. The scores of this program are
  integer-valued Numbers (\<^verbatim>\<open>Math.floor\<close> of a product); for an integer of magnitude at
  most \<open>2^53 - 1\<close> (\<^verbatim>\<open>Number.MAX_SAFE_INTEGER\<close>) the result is its decimal numeral, with
  a leading minus sign when negative. Larger magnitudes are outside what this function
  models (JavaScript rounds them and switches to exponent notation from \<open>10^21\<close>).
\<close>

definition safe_integer :: "int \<Rightarrow> bool" where
  "safe_integer n \<longleftrightarrow> - (2 ^ 53 - 1) \<le> n \<and> n \<le> 2 ^ 53 - 1"

fun decimal :: "nat \<Rightarrow> jsstring" where
  "decimal n = (if n < 10 then [] else decimal (n div 10)) @ [of_nat (48 + n mod 10)]"

definition Number_toString :: "int \<Rightarrow> jsstring" where
  "Number_toString n = (if n < 0 then lit ''-'' @ decimal (nat (- n)) else decimal (nat n))"

text \<open>
  The Numbers \<^verbatim>\<open>handleVerify\<close> computes with are IEEE 754 doubles that are finite and not
  negative. Such a double is \<open>mantissa * 2 ^ exponent\<close> with a mantissa below \<open>2 ^ 53\<close> and an
  exponent from \<open>-1074\<close> to \<open>971\<close> (a value may be written in several ways; only the
  value matters below). \<open>double_less\<close> is \<^verbatim>\<open><\<close> and \<open>double_greater\<close> is \<^verbatim>\<open>>\<close>, compared
  exactly after bringing both sides to the smaller exponent.
\<close>

record double =
  mantissa :: nat
  exponent :: int

definition is_double :: "double \<Rightarrow> bool" where
  "is_double x \<longleftrightarrow> mantissa x < 2 ^ 53 \<and> - 1074 \<le> exponent x \<and> exponent x \<le> 971"

definition double_less :: "double \<Rightarrow> double \<Rightarrow> bool" where
  "double_less x y \<longleftrightarrow>
     (let k = min (exponent x) (exponent y)
      in mantissa x * 2 ^ nat (exponent x - k) < mantissa y * 2 ^ nat (exponent y - k))"

definition double_greater :: "double \<Rightarrow> double \<Rightarrow> bool" where
  "double_greater x y \<longleftrightarrow> double_less y x"

text \<open>
  The product of two doubles is the exact product rounded to the nearest double, a tie
  going to the even mantissa. \<open>round_to_double p e\<close> rounds the exact value
  \<open>p * 2 ^ e\<close>: \<open>excess_bits p\<close> is the number of bits \<open>p\<close> has beyond 53, and no result
  has an exponent below \<open>-1074\<close>. Overflow to Infinity is not modelled; it needs a
  product of at least \<open>2 ^ 1024\<close>, and the only product of the program is below 100.
\<close>

fun excess_bits :: "nat \<Rightarrow> nat" where
  "excess_bits p = (if p < 2 ^ 53 then 0 else Suc (excess_bits (p div 2)))"

definition round_to_double :: "nat \<Rightarrow> int \<Rightarrow> double" where
  "round_to_double p e =
     (let s = max (excess_bits p) (nat (- 1074 - e));
          q = p div 2 ^ s;
          r = p mod 2 ^ s
      in \<lparr>mantissa = (if 2 ^ s < 2 * r \<or> (2 * r = 2 ^ s \<and> odd q) then q + 1 else q),
          exponent = e + int s\<rparr>)"

definition double_times :: "double \<Rightarrow> double \<Rightarrow> double" where
  "double_times x y = round_to_double (mantissa x * mantissa y) (exponent x + exponent y)"

definition Math_floor :: "double \<Rightarrow> int" where
  "Math_floor x =
     (if 0 \<le> exponent x then int (mantissa x * 2 ^ nat (exponent x))
      else int (mantissa x div 2 ^ nat (- exponent x)))"

text \<open>
  \<^verbatim>\<open>Math.random()\<close> returns a double that is at least 0 and less than 1. The numeric
  literals of \<^verbatim>\<open>handleVerify\<close> are the doubles nearest to them: \<^verbatim>\<open>100\<close> and \<^verbatim>\<open>0.5\<close> are
  exact, \<^verbatim>\<open>0.6\<close> is \<open>5404319552844595 * 2 ^ -53\<close> and \<^verbatim>\<open>0.3\<close> is half of that.
\<close>

definition Math_random_range :: "double \<Rightarrow> bool" where
  "Math_random_range x \<longleftrightarrow> is_double x \<and> double_less x \<lparr>mantissa = 1, exponent = 0\<rparr>"

definition literal_100 :: double where
  "literal_100 = \<lparr>mantissa = 25, exponent = 2\<rparr>"

definition literal_0_6 :: double where
  "literal_0_6 = \<lparr>mantissa = 5404319552844595, exponent = - 53\<rparr>"

definition literal_0_3 :: double where
  "literal_0_3 = \<lparr>mantissa = 5404319552844595, exponent = - 54\<rparr>"

definition literal_0_5 :: double where
  "literal_0_5 = \<lparr>mantissa = 1, exponent = - 1\<rparr>"

text \<open>
  \<^verbatim>\<open>encodeURIComponent\<close> (ECMA-262, Encode with the unreserved set): letters, digits and
  \<^verbatim>\<open>- _ . ! ~ * ' ( )\<close> are kept; any other code point is written as the percent-escaped
  octets of its UTF-8 encoding; an unpaired surrogate throws URIError, which is the
  value \<open>None\<close> here.
\<close>

definition uriUnreserved :: "code_unit \<Rightarrow> bool" where
  "uriUnreserved c \<longleftrightarrow>
     (0x41 \<le> c \<and> c \<le> 0x5A) \<or> (0x61 \<le> c \<and> c \<le> 0x7A) \<or> (0x30 \<le> c \<and> c \<le> 0x39) \<or>
     c = 0x2D \<or> c = 0x5F \<or> c = 0x2E \<or> c = 0x21 \<or> c = 0x7E \<or> c = 0x2A \<or> c = 0x27 \<or>
     c = 0x28 \<or> c = 0x29"

definition isLeadingSurrogate :: "code_unit \<Rightarrow> bool" where
  "isLeadingSurrogate c \<longleftrightarrow> 0xD800 \<le> c \<and> c \<le> 0xDBFF"

definition isTrailingSurrogate :: "code_unit \<Rightarrow> bool" where
  "isTrailingSurrogate c \<longleftrightarrow> 0xDC00 \<le> c \<and> c \<le> 0xDFFF"

definition UTF16SurrogatePairToCodePoint :: "code_unit \<Rightarrow> code_unit \<Rightarrow> nat" where
  "UTF16SurrogatePairToCodePoint lead trail =
     (unat lead - 0xD800) * 0x400 + (unat trail - 0xDC00) + 0x10000"

definition utf8_octets :: "nat \<Rightarrow> nat list" where
  "utf8_octets cp =
     (if cp < 0x80 then [cp]
      else if cp < 0x800 then [0xC0 + cp div 64, 0x80 + cp mod 64]
      else if cp < 0x10000 then
        [0xE0 + cp div 4096, 0x80 + cp div 64 mod 64, 0x80 + cp mod 64]
      else
        [0xF0 + cp div 262144, 0x80 + cp div 4096 mod 64, 0x80 + cp div 64 mod 64,
         0x80 + cp mod 64])"

definition hex_digit :: "nat \<Rightarrow> code_unit" where
  "hex_digit d = (if d < 10 then of_nat (0x30 + d) else of_nat (0x41 + (d - 10)))"

definition percent_octet :: "nat \<Rightarrow> jsstring" where
  "percent_octet b = [0x25, hex_digit (b div 16), hex_digit (b mod 16)]"

definition percent_escape :: "nat \<Rightarrow> jsstring" where
  "percent_escape cp = concat (map percent_octet (utf8_octets cp))"

fun encodeURIComponent :: "jsstring \<Rightarrow> jsstring option" where
  "encodeURIComponent [] = Some []"
| "encodeURIComponent (c # cs) =
     (if uriUnreserved c then map_option ((#) c) (encodeURIComponent cs)
      else if \<not> isLeadingSurrogate c \<and> \<not> isTrailingSurrogate c then
        map_option ((@) (percent_escape (unat c))) (encodeURIComponent cs)
      else if isTrailingSurrogate c then None
      else (case cs of
              [] \<Rightarrow> None
            | d # ds \<Rightarrow>
                if isTrailingSurrogate d then
                  map_option ((@) (percent_escape (UTF16SurrogatePairToCodePoint c d)))
                    (encodeURIComponent ds)
                else None))"

section \<open>Result renderer (ResultsCard)\<close>

text \<open>
  The parameter of \<^verbatim>\<open>getScoreColor\<close> has the type \<^verbatim>\<open>number\<close>: a finite value, one of the
  two infinities or NaN. A finite Number is taken as the real number it denotes (the two
  zeros are not told apart; the code never does). \<open>js_less\<close> is the operator \<^verbatim>\<open><\<close> on
  Numbers: every comparison with NaN is false. An integer score is the Number
  \<open>number_of_int\<close> gives.
\<close>

datatype number = Finite real | PosInfinity | NegInfinity | NaN

fun js_less :: "number \<Rightarrow> number \<Rightarrow> bool" where
  "js_less NaN y = False"
| "js_less x NaN = False"
| "js_less (Finite a) (Finite b) = (a < b)"
| "js_less (Finite a) PosInfinity = True"
| "js_less (Finite a) NegInfinity = False"
| "js_less PosInfinity y = False"
| "js_less NegInfinity (Finite b) = True"
| "js_less NegInfinity PosInfinity = True"
| "js_less NegInfinity NegInfinity = False"

definition number_of_int :: "int \<Rightarrow> number" where
  "number_of_int n = Finite (of_int n)"

text \<open>
  \<^verbatim>\<open>getScoreColor\<close> returns the class of the score numeral; the progress bar computes its
  fill colour and its width inline in the \<^verbatim>\<open>style\<close> attribute.
\<close>

definition getScoreColor :: "number \<Rightarrow> jsstring" where
  "getScoreColor score =
     (if js_less score (Finite 40) then lit ''text-red-600''
      else if js_less score (Finite 70) then lit ''text-yellow-600''
      else lit ''text-green-600'')"

definition bar_backgroundColor :: "number \<Rightarrow> jsstring" where
  "bar_backgroundColor risk_score =
     (if js_less risk_score (Finite 40) then lit ''#DC2626''
      else if js_less risk_score (Finite 70) then lit ''#D97706''
      else lit ''#16A34A'')"

text \<open>
  The width is the template literal \<^verbatim>\<open>`${results.risk_score}%`\<close>; it is modelled for the
  integer scores, the ones \<open>Number_toString\<close> covers.
\<close>

definition bar_width :: "int \<Rightarrow> jsstring" where
  "bar_width risk_score = Number_toString risk_score @ lit ''%''"

text \<open>
  Reading a width back. A width of the form \<^verbatim>\<open><integer>%\<close> denotes that integer as a
  percentage; \<open>percentage_value\<close> is that reading, used to say which percentage the
  string built by \<open>bar_width\<close> stands for.
\<close>

definition isDecimalDigit :: "code_unit \<Rightarrow> bool" where
  "isDecimalDigit c \<longleftrightarrow> 0x30 \<le> c \<and> c \<le> 0x39"

definition numeral_value :: "jsstring \<Rightarrow> nat option" where
  "numeral_value ds =
     (if ds \<noteq> [] \<and> list_all isDecimalDigit ds
      then Some (foldl (\<lambda>a c. 10 * a + (unat c - 0x30)) 0 ds) else None)"

definition integer_value :: "jsstring \<Rightarrow> int option" where
  "integer_value s =
     (case s of
        [] \<Rightarrow> None
      | c # cs \<Rightarrow>
          if c = 0x2D then map_option (\<lambda>n. - int n) (numeral_value cs)
          else map_option int (numeral_value s))"

definition percentage_value :: "jsstring \<Rightarrow> int option" where
  "percentage_value s =
     (if s \<noteq> [] \<and> last s = 0x25 then integer_value (butlast s) else None)"

section \<open>Data model (App.tsx)\<close>

text \<open>
  The selected verification type is one of four string literals; \<open>tab_id\<close> is the string
  a template literal prints for it.
\<close>

datatype tab = advisor | announcement | social | anomaly

fun tab_id :: "tab \<Rightarrow> jsstring" where
  "tab_id advisor = lit ''advisor''"
| "tab_id announcement = lit ''announcement''"
| "tab_id social = lit ''social''"
| "tab_id anomaly = lit ''anomaly''"

datatype RiskLevel = Low | Medium | High

text \<open>
  \<^verbatim>\<open>interface VerificationResult\<close>. The only results the program stores have the score
  \<^verbatim>\<open>Math.floor(Math.random() * 100)\<close>, an integer, so the field \<open>risk_score\<close> is an
  \<open>int\<close>; where the renderer treats it as a Number it is \<open>number_of_int\<close> of the
  field. The optional field \<^verbatim>\<open>evidence\<close> is never written or read by the program and
  is left out.
\<close>

record VerificationResult =
  risk_score :: int
  risk_level :: RiskLevel
  reasons :: "jsstring list"
  ai_explanation :: jsstring

text \<open>The four \<^verbatim>\<open>useState\<close> cells of \<^verbatim>\<open>App\<close>, with their initial values.\<close>

record app_state =
  activeTab :: tab
  loading :: bool
  results :: "VerificationResult option"
  inputValue :: jsstring

definition initial_state :: app_state where
  "initial_state = \<lparr>activeTab = advisor, loading = False, results = None, inputValue = []\<rparr>"

section \<open>The mocked verification call\<close>

text \<open>
  \<^verbatim>\<open>handleVerify\<close> builds its result from calls of \<^verbatim>\<open>Math.random()\<close>. The doubles drawn
  are parameters of the model, in the order of the source: the draw for the score, the
  draw of the first test of the level, the draw of its second test (made only when the
  first test fails) and the draw for the wording of the explanation.
\<close>

record draws =
  draw_score :: double
  draw_level :: double
  draw_level2 :: double
  draw_explanation :: double

definition valid_draws :: "draws \<Rightarrow> bool" where
  "valid_draws d \<longleftrightarrow>
     Math_random_range (draw_score d) \<and> Math_random_range (draw_level d) \<and>
     Math_random_range (draw_level2 d) \<and> Math_random_range (draw_explanation d)"

definition mockResult :: "tab \<Rightarrow> jsstring \<Rightarrow> draws \<Rightarrow> VerificationResult" where
  "mockResult activeTab' inputValue' d =
     \<lparr>risk_score = Math_floor (double_times (draw_score d) literal_100),
      risk_level =
        (if double_greater (draw_level d) literal_0_6 then High
         else if double_greater (draw_level2 d) literal_0_3 then Medium
         else Low),
      reasons =
        [if activeTab' = advisor then lit ''Advisor not found in SEBI registry''
         else if activeTab' = announcement then lit ''No matching official filing found''
         else if activeTab' = social then lit ''Contains suspicious keywords''
         else lit ''Unusual volume spike detected'',
         lit ''AI analysis flagged potential fraud indicators''],
      ai_explanation =
        lit ''Based on our analysis of '' @ [0x22] @ inputValue' @ [0x22] @
        lit '', this appears to be '' @
        (if double_greater (draw_explanation d) literal_0_5 then lit ''suspicious''
         else lit ''potentially legitimate'') @
        lit '' content. Our AI detected several red flags including unregistered entities and promises of guaranteed returns.''\<rparr>"

section \<open>Verification orchestrator (handleVerify) and the page around it\<close>

text \<open>
  \<^verbatim>\<open>handleVerify\<close> is an async function: it runs up to its \<^verbatim>\<open>await\<close>, and its
  continuation runs when the awaited call settles. The continuation reads \<^verbatim>\<open>activeTab\<close>
  and \<^verbatim>\<open>inputValue\<close> from the closure of the render in which the handler was created,
  so a call in flight carries the two values it was started with. The world is the state
  of the component together with what lies outside it: the calls in flight, the console
  and the links given to \<^verbatim>\<open>window.open\<close>.
\<close>

record pending_call =
  call_activeTab :: tab
  call_inputValue :: jsstring

datatype settlement = Fulfilled draws | Rejected jsstring

record world =
  ui :: app_state
  inflight :: "pending_call list"
  console :: "(jsstring \<times> jsstring) list"
  opened :: "jsstring list"

definition initial_world :: world where
  "initial_world = \<lparr>ui = initial_state, inflight = [], console = [], opened = []\<rparr>"

text \<open>The part of \<^verbatim>\<open>handleVerify\<close> before the \<^verbatim>\<open>await\<close>.\<close>

definition handleVerify :: "world \<Rightarrow> world" where
  "handleVerify w =
     (if trim (inputValue (ui w)) = [] then w
      else w\<lparr>ui := (ui w)\<lparr>loading := True, results := None\<rparr>,
             inflight := inflight w @
               [\<lparr>call_activeTab = activeTab (ui w), call_inputValue = inputValue (ui w)\<rparr>]\<rparr>)"

text \<open>
  The part after the \<^verbatim>\<open>await\<close>: the rest of the \<^verbatim>\<open>try\<close> block when the call is
  fulfilled, the \<^verbatim>\<open>catch\<close> block when it is rejected, and \<^verbatim>\<open>finally\<close> in both cases.
\<close>

definition handleVerify_resume :: "pending_call \<Rightarrow> settlement \<Rightarrow> world \<Rightarrow> world" where
  "handleVerify_resume c s w =
     (let w' =
        (case s of
           Fulfilled d \<Rightarrow>
             w\<lparr>ui := (ui w)\<lparr>results :=
               Some (mockResult (call_activeTab c) (call_inputValue c) d)\<rparr>\<rparr>
         | Rejected error \<Rightarrow>
             w\<lparr>console := console w @ [(lit ''Verification failed:'', error)]\<rparr>)
      in w'\<lparr>ui := (ui w')\<lparr>loading := False\<rparr>\<rparr>)"

text \<open>\<^verbatim>\<open>handleReport\<close>: the subject, the body and the link given to \<^verbatim>\<open>window.open\<close>.\<close>

definition handleReport_subject :: "app_state \<Rightarrow> jsstring" where
  "handleReport_subject s = lit ''Fraud Report - '' @ tab_id (activeTab s) @ lit '' Verification''"

definition handleReport_body :: "app_state \<Rightarrow> jsstring" where
  "handleReport_body s =
     lit ''Dear SEBI,\<newline>\<newline>I would like to report a potential fraud case:\<newline>\<newline>Type: '' @
     tab_id (activeTab s) @
     lit ''\<newline>Content: '' @ inputValue s @
     lit ''\<newline>Risk Score: '' @
     (case results s of None \<Rightarrow> lit ''undefined'' | Some r \<Rightarrow> Number_toString (risk_score r)) @
     lit ''\<newline>Reasons: '' @
     (case results s of None \<Rightarrow> lit ''undefined'' | Some r \<Rightarrow> join (lit '', '') (reasons r)) @
     lit ''\<newline>\<newline>AI Analysis: '' @
     (case results s of None \<Rightarrow> lit ''undefined'' | Some r \<Rightarrow> ai_explanation r) @
     lit ''\<newline>\<newline>Please investigate this matter.\<newline>\<newline>Thank you.''"

definition handleReport :: "app_state \<Rightarrow> jsstring option" where
  "handleReport s =
     (case encodeURIComponent (handleReport_subject s) of
        None \<Rightarrow> None
      | Some subject \<Rightarrow>
          (case encodeURIComponent (handleReport_body s) of
             None \<Rightarrow> None
           | Some body \<Rightarrow>
               Some (lit ''mailto:complaints@sebi.gov.in?subject='' @ subject @
                     lit ''&body='' @ body)))"

text \<open>
  What the page shows: the \<^verbatim>\<open>disabled\<close> attribute of the Verify button
  (VerificationCard) and the three-way choice of the results panel (App).
\<close>

definition verify_disabled :: "app_state \<Rightarrow> bool" where
  "verify_disabled s \<longleftrightarrow> trim (inputValue s) = [] \<or> loading s"

datatype panel = LoadingSpinner | ResultsCard VerificationResult | ReadyToAnalyze

definition results_panel :: "app_state \<Rightarrow> panel" where
  "results_panel s =
     (if loading s then LoadingSpinner
      else case results s of Some r \<Rightarrow> ResultsCard r | None \<Rightarrow> ReadyToAnalyze)"

text \<open>
  The events of the page. A click on a disabled button is not delivered; the Report
  button exists only inside the results card; a call settles only when one is in flight.
\<close>

datatype event =
    ClickTab tab
  | Change jsstring
  | ClickVerify
  | ClickReport
  | Settle settlement

fun step :: "event \<Rightarrow> world \<Rightarrow> world" where
  "step (ClickTab t) w = w\<lparr>ui := (ui w)\<lparr>activeTab := t\<rparr>\<rparr>"
| "step (Change v) w = w\<lparr>ui := (ui w)\<lparr>inputValue := v\<rparr>\<rparr>"
| "step ClickVerify w = (if verify_disabled (ui w) then w else handleVerify w)"
| "step ClickReport w =
     (case results_panel (ui w) of
        ResultsCard r \<Rightarrow>
          (case handleReport (ui w) of
             Some url \<Rightarrow> w\<lparr>opened := opened w @ [url]\<rparr>
           | None \<Rightarrow> w)
      | _ \<Rightarrow> w)"
| "step (Settle s) w =
     (case inflight w of
        [] \<Rightarrow> w
      | c # cs \<Rightarrow> handleVerify_resume c s (w\<lparr>inflight := cs\<rparr>))"

fun run :: "event list \<Rightarrow> world \<Rightarrow> world" where
  "run [] w = w"
| "run (e # es) w = run es (step e w)"

text \<open>
  The invariant of the page: either no call is in flight and the loading flag is off, or
  exactly one call is in flight, the flag is on and no result is stored.
\<close>

definition single_flight :: "world \<Rightarrow> bool" where
  "single_flight w \<longleftrightarrow>
     (inflight w = [] \<and> \<not> loading (ui w)) \<or>
     (length (inflight w) = 1 \<and> loading (ui w) \<and> results (ui w) = None)"

section \<open>Auxiliary notions for the complaint draft\<close>

text \<open>
  The characters a percent-encoded string consists of: the unreserved ones (the
  hexadecimal digits are among them) and the percent sign.
\<close>

definition uri_safe :: "code_unit \<Rightarrow> bool" where
  "uri_safe c \<longleftrightarrow> uriUnreserved c \<or> c = 0x25"

text \<open>
  \<^verbatim>\<open>String.prototype.isWellFormed\<close>: no surrogate code unit stands alone. These are the
  strings on which \<^verbatim>\<open>encodeURIComponent\<close> does not throw (lemma
  \<open>encodeURIComponent_defined_iff\<close> below).
\<close>

fun isWellFormed :: "jsstring \<Rightarrow> bool" where
  "isWellFormed [] = True"
| "isWellFormed (c # cs) =
     (if isLeadingSurrogate c then
        (case cs of [] \<Rightarrow> False | d # ds \<Rightarrow> isTrailingSurrogate d \<and> isWellFormed ds)
      else \<not> isTrailingSurrogate c \<and> isWellFormed cs)"

definition isSurrogate :: "code_unit \<Rightarrow> bool" where
  "isSurrogate c \<longleftrightarrow> isLeadingSurrogate c \<or> isTrailingSurrogate c"

text \<open>
  The example of section 8 of the specification: category social, the text
  \<^verbatim>\<open>Buy XYZ for 300% returns\<close> and a result with score 90 (with the two reasons the mock
  gives for that category).
\<close>

definition example_result :: VerificationResult where
  "example_result =
     \<lparr>risk_score = 90, risk_level = High,
      reasons = [lit ''Contains suspicious keywords'',
                 lit ''AI analysis flagged potential fraud indicators''],
      ai_explanation = lit ''this appears to be suspicious content.''\<rparr>"

definition example_state :: app_state where
  "example_state =
     \<lparr>activeTab = social, loading = False, results = Some example_result,
      inputValue = lit ''Buy XYZ for 300% returns''\<rparr>"

text \<open>
  The events that only edit the form: a click on a tab and a change of the text.
\<close>

fun is_edit :: "event \<Rightarrow> bool" where
  "is_edit (ClickTab t) = True"
| "is_edit (Change v) = True"
| "is_edit e = False"

text \<open>
  A second run used as an example: a request is made with category advisor and text
  \<^verbatim>\<open>old\<close>; while it is pending the user selects anomaly; the request is fulfilled with
  the draws 435/1024, 3/4, 0 and 7/8; then the user types \<^verbatim>\<open>draft\<close>, selects social and
  types \<^verbatim>\<open>new\<close>.
\<close>

definition example_draws :: draws where
  "example_draws =
     \<lparr>draw_score = \<lparr>mantissa = 435, exponent = - 10\<rparr>,
      draw_level = \<lparr>mantissa = 3, exponent = - 2\<rparr>,
      draw_level2 = \<lparr>mantissa = 0, exponent = 0\<rparr>,
      draw_explanation = \<lparr>mantissa = 7, exponent = - 3\<rparr>\<rparr>"

definition example_events :: "event list" where
  "example_events =
     [ClickTab advisor, Change (lit ''old''), ClickVerify, ClickTab anomaly,
      Settle (Fulfilled example_draws), Change (lit ''draft''), ClickTab social,
      Change (lit ''new'')]"

text \<open>
  Four more draws: the doubles \<^verbatim>\<open>0.24\<close> and \<^verbatim>\<open>0.7\<close> for the score, each with level
  draws 1/4 and 1/4 or with the level draw 3/4. \<open>submit_and_fulfil\<close> is the run in which
  the user types \<^verbatim>\<open>abc\<close>, clicks Verify and the request is fulfilled with the draws given.
\<close>

definition double_0_24 :: double where
  "double_0_24 = \<lparr>mantissa = 8646911284551352, exponent = - 55\<rparr>"

definition double_0_7 :: double where
  "double_0_7 = \<lparr>mantissa = 6305039478318694, exponent = - 53\<rparr>"

definition draws_low :: "double \<Rightarrow> draws" where
  "draws_low u =
     \<lparr>draw_score = u, draw_level = \<lparr>mantissa = 1, exponent = - 2\<rparr>,
      draw_level2 = \<lparr>mantissa = 1, exponent = - 2\<rparr>,
      draw_explanation = \<lparr>mantissa = 1, exponent = - 2\<rparr>\<rparr>"

definition draws_high :: "double \<Rightarrow> draws" where
  "draws_high u =
     \<lparr>draw_score = u, draw_level = \<lparr>mantissa = 3, exponent = - 2\<rparr>,
      draw_level2 = \<lparr>mantissa = 1, exponent = - 2\<rparr>,
      draw_explanation = \<lparr>mantissa = 1, exponent = - 2\<rparr>\<rparr>"

definition submit_and_fulfil :: "draws \<Rightarrow> world" where
  "submit_and_fulfil d =
     run [Change (lit ''abc''), ClickVerify, Settle (Fulfilled d)] initial_world"

section \<open>The orchestrator: one call in flight\<close>

lemma single_flight_initial: "single_flight initial_world"
  by (simp add: single_flight_def initial_world_def initial_state_def)

lemma single_flight_handleVerify:
  "single_flight w \<Longrightarrow> \<not> loading (ui w) \<Longrightarrow> single_flight (handleVerify w)"
  by (auto simp: single_flight_def handleVerify_def)

lemma single_flight_resume:
  "single_flight w \<Longrightarrow> inflight w = c # cs \<Longrightarrow>
     single_flight (handleVerify_resume c s (w\<lparr>inflight := cs\<rparr>))"
  by (cases s) (auto simp: single_flight_def handleVerify_resume_def Let_def)

lemma single_flight_step: "single_flight w \<Longrightarrow> single_flight (step e w)"
proof (cases e)
  case (ClickTab t)
  assume "single_flight w"
  then show ?thesis using ClickTab by (simp add: single_flight_def)
next
  case (Change v)
  assume "single_flight w"
  then show ?thesis using Change by (simp add: single_flight_def)
next
  case ClickVerify
  assume "single_flight w"
  then show ?thesis using ClickVerify
    by (simp add: verify_disabled_def single_flight_handleVerify)
next
  case ClickReport
  assume "single_flight w"
  then show ?thesis using ClickReport
    by (auto simp: single_flight_def split: panel.splits option.splits)
next
  case (Settle s)
  assume "single_flight w"
  then show ?thesis using Settle
    by (cases "inflight w") (simp_all add: single_flight_resume)
qed

lemma single_flight_run: "single_flight w \<Longrightarrow> single_flight (run es w)"
  by (induction es arbitrary: w) (simp_all add: single_flight_step)

lemma trim_examples:
  "trim (lit ''  Buy XYZ  '') = lit ''Buy XYZ''"
  "trim [0x20, 0x09, 0x0A, 0x0D, 0xA0, 0xFEFF, 0x2003] = []"
  "trim [] = []"
  by (simp_all add: trim_def isTrimSpace_def lit_def)

lemma trim_abc: "trim (lit ''abc'') = lit ''abc''" "lit ''abc'' \<noteq> []"
  by (simp_all add: trim_def lit_def isTrimSpace_def)

lemma run_abc_verify:
  "run [Change (lit ''abc''), ClickVerify] initial_world =
     \<lparr>ui = \<lparr>activeTab = advisor, loading = True, results = None, inputValue = lit ''abc''\<rparr>,
      inflight = [\<lparr>call_activeTab = advisor, call_inputValue = lit ''abc''\<rparr>],
      console = [], opened = []\<rparr>"
  by (simp add: initial_world_def initial_state_def verify_disabled_def handleVerify_def trim_abc)

text \<open>
  The guard against a second call is the \<^verbatim>\<open>disabled\<close> attribute of the button, not
  \<^verbatim>\<open>handleVerify\<close>: called directly on a non-blank input, the handler starts a call
  whatever the loading flag says.
\<close>

lemma handleVerify_itself_unguarded:
  "trim (inputValue (ui w)) \<noteq> [] \<Longrightarrow>
     length (inflight (handleVerify w)) = Suc (length (inflight w))"
  by (simp add: handleVerify_def)

text \<open>
  Claim C1. In every state whose loading flag is on, the Verify button is disabled and a
  click on it changes nothing, so no further call is started; and in every state the
  page can reach from its initial state, at most one call is in flight, exactly one when
  the loading flag is on.
\<close>

theorem C1_single_flight:
  "(loading (ui w) \<longrightarrow> verify_disabled (ui w) \<and> step ClickVerify w = w) \<and>
   length (inflight (run es initial_world)) \<le> 1 \<and>
   (loading (ui (run es initial_world)) \<longleftrightarrow> length (inflight (run es initial_world)) = 1)"
proof -
  have "single_flight (run es initial_world)"
    by (rule single_flight_run [OF single_flight_initial])
  then show ?thesis
    by (auto simp: single_flight_def verify_disabled_def)
qed

theorem C1_single_flight_witness:
  "loading (ui (run [Change (lit ''abc''), ClickVerify] initial_world)) \<and>
   step ClickVerify (run [Change (lit ''abc''), ClickVerify] initial_world) =
     run [Change (lit ''abc''), ClickVerify] initial_world \<and>
   length (inflight (run [Change (lit ''abc''), ClickVerify, ClickVerify] initial_world)) \<le> 1"
proof -
  let ?w = "run [Change (lit ''abc''), ClickVerify] initial_world"
  have l: "loading (ui ?w)"
    unfolding run_abc_verify by simp
  from C1_single_flight [of ?w "[Change (lit ''abc''), ClickVerify, ClickVerify]"] l
  show ?thesis by blast
qed

text \<open>
  Claim C2. When the trimmed input is not empty, the part of \<^verbatim>\<open>handleVerify\<close> that runs
  before the \<^verbatim>\<open>await\<close> turns the loading flag on, sets the stored result to absent
  whatever it was, leaves the category and the text alone and starts one call; a click on
  the enabled button does exactly this. When the call is fulfilled the stored result is
  the new result alone, whatever was stored before.
\<close>

theorem C2_submit_enters_pending:
  "trim (inputValue (ui w)) \<noteq> [] \<Longrightarrow>
     loading (ui (handleVerify w)) \<and>
     results (ui (handleVerify w)) = None \<and>
     activeTab (ui (handleVerify w)) = activeTab (ui w) \<and>
     inputValue (ui (handleVerify w)) = inputValue (ui w) \<and>
     inflight (handleVerify w) =
       inflight w @ [\<lparr>call_activeTab = activeTab (ui w), call_inputValue = inputValue (ui w)\<rparr>] \<and>
     (\<not> loading (ui w) \<longrightarrow> step ClickVerify w = handleVerify w) \<and>
     results (ui (handleVerify_resume c (Fulfilled d) w')) =
       Some (mockResult (call_activeTab c) (call_inputValue c) d)"
  by (simp add: handleVerify_def handleVerify_resume_def verify_disabled_def)

theorem C2_submit_enters_pending_witness:
  "trim (inputValue (ui
     \<lparr>ui = \<lparr>activeTab = social, loading = False,
             results = Some \<lparr>risk_score = 35, risk_level = High, reasons = [lit ''abc''],
                              ai_explanation = lit ''abc''\<rparr>,
             inputValue = lit ''abc''\<rparr>,
      inflight = [], console = [], opened = []\<rparr>)) \<noteq> [] \<and>
   step ClickVerify
     \<lparr>ui = \<lparr>activeTab = social, loading = False,
             results = Some \<lparr>risk_score = 35, risk_level = High, reasons = [lit ''abc''],
                              ai_explanation = lit ''abc''\<rparr>,
             inputValue = lit ''abc''\<rparr>,
      inflight = [], console = [], opened = []\<rparr> =
     \<lparr>ui = \<lparr>activeTab = social, loading = True, results = None, inputValue = lit ''abc''\<rparr>,
      inflight = [\<lparr>call_activeTab = social, call_inputValue = lit ''abc''\<rparr>],
      console = [], opened = []\<rparr>"
proof -
  let ?w = "\<lparr>ui = \<lparr>activeTab = social, loading = False,
             results = Some \<lparr>risk_score = 35, risk_level = High, reasons = [lit ''abc''],
                              ai_explanation = lit ''abc''\<rparr>,
             inputValue = lit ''abc''\<rparr>,
      inflight = [], console = [], opened = []\<rparr>"
  have t: "trim (inputValue (ui ?w)) \<noteq> []"
    by (simp add: trim_abc)
  have h: "handleVerify ?w =
     \<lparr>ui = \<lparr>activeTab = social, loading = True, results = None, inputValue = lit ''abc''\<rparr>,
      inflight = [\<lparr>call_activeTab = social, call_inputValue = lit ''abc''\<rparr>],
      console = [], opened = []\<rparr>"
    by (simp add: handleVerify_def trim_abc)
  have "step ClickVerify ?w = handleVerify ?w"
    using C2_submit_enters_pending [OF t] by simp
  with t h show ?thesis by simp
qed

text \<open>
  Claim C3. When the input is empty or consists of white space only, \<^verbatim>\<open>handleVerify\<close>
  returns at once: the whole world is unchanged, which covers the loading flag, the
  stored result, the category, the text and the list of calls in flight, so no call is
  started. The button is disabled as well, and a click on it changes nothing.
\<close>

theorem C3_blank_submit_is_noop:
  "trim (inputValue (ui w)) = [] \<Longrightarrow>
     handleVerify w = w \<and> verify_disabled (ui w) \<and> step ClickVerify w = w"
  by (simp add: handleVerify_def verify_disabled_def)

theorem C3_blank_submit_is_noop_witness:
  "trim [0x20, 0x09, 0x0A, 0xA0] = [] \<and>
   handleVerify (step (Change [0x20, 0x09, 0x0A, 0xA0]) initial_world) =
     step (Change [0x20, 0x09, 0x0A, 0xA0]) initial_world \<and>
   step ClickVerify (step (Change [0x20, 0x09, 0x0A, 0xA0]) initial_world) =
     step (Change [0x20, 0x09, 0x0A, 0xA0]) initial_world"
proof -
  let ?w = "step (Change [0x20, 0x09, 0x0A, 0xA0]) initial_world"
  have t: "trim [0x20, 0x09, 0x0A, 0xA0] = []"
    by (simp add: trim_def isTrimSpace_def)
  then have "trim (inputValue (ui ?w)) = []" by simp
  from C3_blank_submit_is_noop [OF this] t show ?thesis by simp
qed

text \<open>
  Claim C4. In every state the page can reach in which a call is in flight, a rejection
  of that call is caught and logged to the console, the loading flag is turned off, the
  stored result stays absent, the results panel shows the "Ready to Analyze" placeholder
  it showed before the submission (there is no error panel), no call is left in flight,
  and the button is enabled again exactly when the text is not blank.
\<close>

theorem C4_failure_returns_to_empty:
  "inflight (run es initial_world) \<noteq> [] \<Longrightarrow>
     console (step (Settle (Rejected err)) (run es initial_world)) =
       console (run es initial_world) @ [(lit ''Verification failed:'', err)] \<and>
     \<not> loading (ui (step (Settle (Rejected err)) (run es initial_world))) \<and>
     results (ui (step (Settle (Rejected err)) (run es initial_world))) = None \<and>
     results_panel (ui (step (Settle (Rejected err)) (run es initial_world))) = ReadyToAnalyze \<and>
     inflight (step (Settle (Rejected err)) (run es initial_world)) = [] \<and>
     (verify_disabled (ui (step (Settle (Rejected err)) (run es initial_world))) \<longleftrightarrow>
        trim (inputValue (ui (run es initial_world))) = [])"
proof -
  assume a: "inflight (run es initial_world) \<noteq> []"
  define w where "w = run es initial_world"
  have "single_flight w"
    unfolding w_def by (rule single_flight_run [OF single_flight_initial])
  with a obtain c where c: "inflight w = [c]" and r: "results (ui w) = None"
    unfolding w_def [symmetric] single_flight_def
    by (cases "inflight w") auto
  show ?thesis
    unfolding w_def [symmetric]
    by (simp add: c r handleVerify_resume_def results_panel_def verify_disabled_def)
qed

theorem C4_failure_returns_to_empty_witness:
  "inflight (run [Change (lit ''abc''), ClickVerify] initial_world) \<noteq> [] \<and>
   step (Settle (Rejected (lit ''timeout''))) (run [Change (lit ''abc''), ClickVerify] initial_world) =
     \<lparr>ui = \<lparr>activeTab = advisor, loading = False, results = None, inputValue = lit ''abc''\<rparr>,
      inflight = [],
      console = [(lit ''Verification failed:'', lit ''timeout'')], opened = []\<rparr> \<and>
   results_panel (ui (step (Settle (Rejected (lit ''timeout'')))
     (run [Change (lit ''abc''), ClickVerify] initial_world))) = ReadyToAnalyze \<and>
   \<not> verify_disabled (ui (step (Settle (Rejected (lit ''timeout'')))
     (run [Change (lit ''abc''), ClickVerify] initial_world)))"
proof -
  let ?es = "[Change (lit ''abc''), ClickVerify]"
  have n: "inflight (run ?es initial_world) \<noteq> []"
    unfolding run_abc_verify by simp
  have s: "step (Settle (Rejected (lit ''timeout''))) (run ?es initial_world) =
     \<lparr>ui = \<lparr>activeTab = advisor, loading = False, results = None, inputValue = lit ''abc''\<rparr>,
      inflight = [],
      console = [(lit ''Verification failed:'', lit ''timeout'')], opened = []\<rparr>"
    unfolding run_abc_verify by (simp add: handleVerify_resume_def)
  have t: "trim (inputValue (ui (run ?es initial_world))) \<noteq> []"
    unfolding run_abc_verify by (simp add: trim_abc)
  from C4_failure_returns_to_empty [OF n, of "lit ''timeout''"] n s t
  show ?thesis by blast
qed

section \<open>The mocked result: score and level\<close>

declare excess_bits.simps [simp del]

lemmas double_defs = double_times_def round_to_double_def Math_floor_def double_less_def
  double_greater_def is_double_def Math_random_range_def literal_100_def literal_0_6_def
  literal_0_3_def literal_0_5_def Let_def

text \<open>
  Two products on which rounding matters: the exact products of the doubles \<^verbatim>\<open>0.24\<close> and
  \<^verbatim>\<open>0.7\<close> with 100 are just below 24 and 70, and round up to them.
\<close>

lemma rounded_products:
  "Math_floor (double_times double_0_24 literal_100) = 24"
  "Math_floor (double_times double_0_7 literal_100) = 70"
  "double_times double_0_7 literal_100 = \<lparr>mantissa = 4925812092436480, exponent = - 46\<rparr>"
  by (simp_all add: double_defs excess_bits.simps double_0_24_def double_0_7_def)

lemma excess_bits_small: "p < 2 ^ 53 \<Longrightarrow> excess_bits p = 0"
  by (subst excess_bits.simps) simp

lemma excess_bits_le: "p < 2 ^ 53 * 2 ^ k \<Longrightarrow> excess_bits p \<le> k"
proof (induction k arbitrary: p)
  case 0
  then show ?case by (simp add: excess_bits_small)
next
  case (Suc k)
  show ?case
  proof (cases "p < 2 ^ 53")
    case True
    then show ?thesis by (simp add: excess_bits_small)
  next
    case False
    from Suc.prems have "p div 2 < 2 ^ 53 * 2 ^ k" by simp
    then have "excess_bits (p div 2) \<le> k" by (rule Suc.IH)
    with False show ?thesis by (subst excess_bits.simps) simp
  qed
qed

lemma excess_bits_lower: "0 < excess_bits p \<Longrightarrow> 2 ^ 52 * 2 ^ excess_bits p \<le> p"
proof (induction p rule: excess_bits.induct)
  case (1 p)
  show ?case
  proof (cases "p < 2 ^ 53")
    case True
    with "1.prems" show ?thesis by (simp add: excess_bits_small)
  next
    case False
    then have e: "excess_bits p = Suc (excess_bits (p div 2))"
      by (subst excess_bits.simps) simp
    show ?thesis
    proof (cases "excess_bits (p div 2) = 0")
      case True
      with e False show ?thesis by simp
    next
      case nz: False
      then have "2 ^ 52 * 2 ^ excess_bits (p div 2) \<le> p div 2"
        using "1.IH" [OF False] by simp
      then have "2 * (2 ^ 52 * 2 ^ excess_bits (p div 2)) \<le> p" by simp
      with e show ?thesis by simp
    qed
  qed
qed

lemma pow_split: "j \<le> (n::nat) \<Longrightarrow> (2::nat) ^ n = 2 ^ (n - j) * 2 ^ j"
  by (simp flip: power_add)

text \<open>
  A double below 1 is \<open>m * 2 ^ - n\<close> with \<open>m < 2 ^ n\<close>. Its exact product with 100 is at
  least \<open>25 * 2 ^ (2 - n)\<close> below 100, and rounding moves it by at most half of
  \<open>2 ^ 5 * 2 ^ (2 - n)\<close>, so the rounded product is still below 100.
\<close>

lemma round_below_100:
  fixes m n :: nat
  assumes mn: "m < 2 ^ n" and m53: "m < 2 ^ 53" and n: "n \<le> 1074"
  shows "Math_floor (round_to_double (m * 25) (2 - int n)) < 100"
proof -
  define p where "p = m * 25"
  define s where "s = excess_bits p"
  define q where "q = p div 2 ^ s"
  define r where "r = p mod 2 ^ s"
  define q' where "q' = (if 2 ^ s < 2 * r \<or> (2 * r = 2 ^ s \<and> odd q) then q + 1 else q)"
  have sub: "nat (- 1074 - (2 - int n)) = 0" using n by simp
  have rd: "round_to_double (m * 25) (2 - int n) = \<lparr>mantissa = q', exponent = 2 - int n + int s\<rparr>"
    unfolding round_to_double_def Let_def sub p_def [symmetric] s_def [symmetric]
      max_0R q_def [symmetric] r_def [symmetric] q'_def [symmetric]
    by simp
  have pqr: "p = q * 2 ^ s + r"
    unfolding q_def r_def by (rule div_mult_mod_eq [symmetric])
  have r_lt: "r < 2 ^ s"
    by (simp add: r_def)
  have "p < 2 ^ 53 * 2 ^ 5" using m53 by (simp add: p_def)
  then have s5: "s \<le> 5" unfolding s_def by (rule excess_bits_le)
  have p_lt: "p + 25 \<le> 25 * 2 ^ n" using mn by (simp add: p_def)
  show ?thesis
  proof (cases "s = 0")
    case True
    then have q'p: "q' = p" by (simp add: q'_def q_def r_def)
    show ?thesis
    proof (cases "n \<le> 2")
      case True
      then have "n = 0 \<or> n = 1 \<or> n = 2" by arith
      then have "int p * 2 ^ (2 - n) < 100"
        using mn by (elim disjE) (simp_all add: p_def)
      with True \<open>s = 0\<close> show ?thesis
        by (simp add: rd Math_floor_def q'p nat_diff_distrib')
    next
      case False
      then have "(2::nat) ^ n = 2 ^ (n - 2) * 2 ^ 2" by (intro pow_split) simp
      with p_lt have "p < 100 * 2 ^ (n - 2)" by simp
      then have "p div 2 ^ (n - 2) < 100"
        by (simp add: less_mult_imp_div_less)
      moreover from False have "nat (int n - 2) = n - 2" by simp
      ultimately show ?thesis using False \<open>s = 0\<close>
        by (simp add: rd Math_floor_def q'p)
    qed
  next
    case False
    then have "2 ^ 52 * 2 ^ s \<le> p" unfolding s_def by (intro excess_bits_lower) simp
    with p_lt have big: "(2::nat) ^ 52 * 2 ^ s < 2 ^ 5 * 2 ^ n" by simp
    have "52 + s < 5 + n"
    proof (rule ccontr)
      assume "\<not> 52 + s < 5 + n"
      then have "(2::nat) ^ (5 + n) \<le> 2 ^ (52 + s)" by (intro power_increasing) simp_all
      with big show False by (simp add: power_add)
    qed
    then have ns: "s + 47 < n" by simp
    define j where "j = n - s"
    have n2: "(2::nat) ^ n = 2 ^ j * 2 ^ s" unfolding j_def using ns by (intro pow_split) simp
    have j2: "(2::nat) ^ j = 2 ^ (j - 2) * 2 ^ 2" using ns by (intro pow_split) (simp add: j_def)
    have A: "(2::nat) ^ s \<le> 32"
      using power_increasing [of s 5 "2::nat"] s5 by simp
    have "q' * 2 ^ s < 25 * 2 ^ j * 2 ^ s"
    proof (cases "2 ^ s < 2 * r \<or> (2 * r = 2 ^ s \<and> odd q)")
      case True
      then have "q' * 2 ^ s = q * 2 ^ s + 2 ^ s" by (simp add: q'_def)
      also have "\<dots> \<le> p + 16" using True pqr r_lt A by auto
      also have "\<dots> < 25 * 2 ^ n" using p_lt by simp
      finally show ?thesis by (simp add: n2)
    next
      case False
      then have "q' * 2 ^ s = q * 2 ^ s" by (simp add: q'_def)
      also have "\<dots> \<le> p" using pqr by simp
      also have "\<dots> < 25 * 2 ^ n" using p_lt by simp
      finally show ?thesis by (simp add: n2)
    qed
    then have "q' < 25 * 2 ^ j" by simp
    then have "q' < 100 * 2 ^ (j - 2)" using j2 by simp
    then have "q' div 2 ^ (j - 2) < 100" by (simp add: less_mult_imp_div_less)
    moreover have "nat (- (2 - int n + int s)) = j - 2" using ns by (simp add: j_def)
    moreover have "\<not> 0 \<le> 2 - int n + int s" using ns by simp
    ultimately show ?thesis by (simp add: rd Math_floor_def)
  qed
qed

lemma random_range_cases:
  assumes "Math_random_range u"
  shows "mantissa u < 2 ^ 53 \<and> - 1074 \<le> exponent u \<and>
    (mantissa u = 0 \<or> (exponent u < 0 \<and> mantissa u < 2 ^ nat (- exponent u)))"
proof (cases "0 \<le> exponent u")
  case True
  with assms show ?thesis
    by (simp add: Math_random_range_def is_double_def double_less_def min_def)
next
  case False
  with assms show ?thesis
    by (simp add: Math_random_range_def is_double_def double_less_def min_def)
qed

lemma floor_times_100_range:
  "Math_random_range u \<Longrightarrow>
     0 \<le> Math_floor (double_times u literal_100) \<and> Math_floor (double_times u literal_100) \<le> 99"
proof -
  assume "Math_random_range u"
  from random_range_cases [OF this]
  have m53: "mantissa u < 2 ^ 53" and e: "- 1074 \<le> exponent u"
    and c: "mantissa u = 0 \<or> (exponent u < 0 \<and> mantissa u < 2 ^ nat (- exponent u))"
    by simp_all
  have nonneg: "0 \<le> Math_floor (double_times u literal_100)"
    by (simp add: Math_floor_def)
  from c have "Math_floor (double_times u literal_100) < 100"
  proof
    assume z: "mantissa u = 0"
    then show ?thesis
      by (simp add: double_times_def round_to_double_def Math_floor_def Let_def
            excess_bits.simps literal_100_def)
  next
    assume a: "exponent u < 0 \<and> mantissa u < 2 ^ nat (- exponent u)"
    define n where "n = nat (- exponent u)"
    have en: "exponent u = - int n" using a by (simp add: n_def)
    have "Math_floor (round_to_double (mantissa u * 25) (2 - int n)) < 100"
      using a m53 e by (intro round_below_100) (simp_all add: n_def)
    moreover have "exponent u + 2 = 2 - int n" using en by simp
    ultimately show ?thesis
      by (simp add: double_times_def literal_100_def)
  qed
  with nonneg show ?thesis by simp
qed

lemma mockResult_score_range:
  "valid_draws d \<Longrightarrow> 0 \<le> risk_score (mockResult t x d) \<and> risk_score (mockResult t x d) \<le> 99"
  using floor_times_100_range [of "draw_score d"]
  by (simp add: valid_draws_def mockResult_def)

text \<open>
  The draws that give a level: 3/4 is above \<^verbatim>\<open>0.6\<close>; 1/2 is not, and is above \<^verbatim>\<open>0.3\<close>;
  1/4 is above neither.
\<close>

lemma level_draws:
  "\<exists>a b. Math_random_range a \<and> Math_random_range b \<and>
     (if double_greater a literal_0_6 then High
      else if double_greater b literal_0_3 then Medium else Low) = l"
proof (cases l)
  case Low
  have "Math_random_range \<lparr>mantissa = 1, exponent = - 2\<rparr> \<and>
    \<not> double_greater \<lparr>mantissa = 1, exponent = - 2\<rparr> literal_0_6 \<and>
    \<not> double_greater \<lparr>mantissa = 1, exponent = - 2\<rparr> literal_0_3"
    by (simp add: double_defs)
  with Low show ?thesis by (metis (full_types))
next
  case Medium
  have "Math_random_range \<lparr>mantissa = 1, exponent = - 1\<rparr> \<and>
    \<not> double_greater \<lparr>mantissa = 1, exponent = - 1\<rparr> literal_0_6 \<and>
    double_greater \<lparr>mantissa = 1, exponent = - 1\<rparr> literal_0_3"
    by (simp add: double_defs)
  with Medium show ?thesis by (metis (full_types))
next
  case High
  have "Math_random_range \<lparr>mantissa = 3, exponent = - 2\<rparr> \<and>
    double_greater \<lparr>mantissa = 3, exponent = - 2\<rparr> literal_0_6"
    by (simp add: double_defs)
  with High show ?thesis by (metis (full_types))
qed

text \<open>
  A score draw for each score from 0 to 99: a multiple of 1/1024 whose product with 100
  needs no rounding.
\<close>

lemma score_draw:
  assumes "0 \<le> n" and "n \<le> 99"
  shows "\<exists>u. Math_random_range u \<and> Math_floor (double_times u literal_100) = n"
proof -
  define k where "k = nat ((256 * n + 24) div 25)"
  let ?u = "\<lparr>mantissa = k, exponent = - 10\<rparr>"
  have "0 \<le> (256 * n + 24) div 25" using assms by simp
  then have ik: "int k = (256 * n + 24) div 25" by (simp add: k_def)
  have k: "k < 1024" "256 * n \<le> 25 * int k" "25 * int k < 256 * (n + 1)"
    using assms ik by arith+
  then have k25: "k * 25 < 2 ^ 53" by simp
  have "Math_random_range ?u"
    using k(1) by (simp add: Math_random_range_def is_double_def double_less_def)
  moreover have "int (k * 25 div 256) = n"
    using k(2,3) by (simp add: zdiv_int)
  then have "Math_floor (double_times ?u literal_100) = n"
    using excess_bits_small [OF k25]
    by (simp add: double_times_def literal_100_def round_to_double_def Math_floor_def)
  ultimately show ?thesis by blast
qed

lemma mockResult_level_free:
  assumes "Math_random_range u"
  shows "\<exists>d. valid_draws d \<and> draw_score d = u \<and> risk_level (mockResult t x d) = l"
proof -
  from level_draws [of l] obtain a b where ab: "Math_random_range a" "Math_random_range b"
    "(if double_greater a literal_0_6 then High
      else if double_greater b literal_0_3 then Medium else Low) = l"
    by blast
  let ?d = "\<lparr>draw_score = u, draw_level = a, draw_level2 = b, draw_explanation = a\<rparr>"
  have "valid_draws ?d" using assms ab by (simp add: valid_draws_def)
  moreover have "risk_level (mockResult t x ?d) = l"
    unfolding ab(3) [symmetric] by (simp add: mockResult_def)
  ultimately show ?thesis by (intro exI [of _ ?d]) simp
qed

lemma mockResult_score_of_draw:
  "risk_score (mockResult t x d) = Math_floor (double_times (draw_score d) literal_100)"
  by (simp add: mockResult_def)

lemma mockResult_same_score_any_level:
  assumes "valid_draws d"
  shows "\<exists>d'. valid_draws d' \<and> risk_score (mockResult t x d') = risk_score (mockResult t x d) \<and>
    risk_level (mockResult t x d') = l"
proof -
  from assms have "Math_random_range (draw_score d)" by (simp add: valid_draws_def)
  from mockResult_level_free [OF this, of t x l]
  obtain d' where "valid_draws d'" "draw_score d' = draw_score d"
    "risk_level (mockResult t x d') = l" by blast
  then show ?thesis by (auto simp: mockResult_score_of_draw)
qed

lemma mockResult_any_score_any_level:
  assumes "0 \<le> n" and "n \<le> 99"
  shows "\<exists>d. valid_draws d \<and> risk_score (mockResult t x d) = n \<and>
    risk_level (mockResult t x d) = l"
proof -
  from score_draw [OF assms] obtain u where u: "Math_random_range u"
    "Math_floor (double_times u literal_100) = n" by blast
  from mockResult_level_free [OF u(1), of t x l]
  obtain d where "valid_draws d" "draw_score d = u" "risk_level (mockResult t x d) = l"
    by blast
  with u(2) show ?thesis by (auto simp: mockResult_score_of_draw)
qed

lemma submit_and_fulfil_result:
  "results (ui (submit_and_fulfil d)) = Some (mockResult advisor (lit ''abc'') d)"
  by (simp add: submit_and_fulfil_def initial_world_def initial_state_def verify_disabled_def
        handleVerify_def handleVerify_resume_def trim_abc)

text \<open>
  Claim C7, as the code has it. The result stored after a request is the one
  \<open>mockResult\<close> builds. Its score lies between 0 and 99. Its level comes from draws of
  its own: whatever the draws were, other valid draws give the same score with any
  level wanted, and for every score from 0 to 99 and every level there are valid draws
  that give exactly that score and that level. The level is therefore not a function of
  the score.
\<close>

theorem C7_level_independent_of_score:
  "results (ui (submit_and_fulfil d)) = Some (mockResult advisor (lit ''abc'') d) \<and>
   (valid_draws d \<longrightarrow>
      0 \<le> risk_score (mockResult t x d) \<and> risk_score (mockResult t x d) \<le> 99) \<and>
   (valid_draws d \<longrightarrow>
      (\<exists>d'. valid_draws d' \<and>
            risk_score (mockResult t x d') = risk_score (mockResult t x d) \<and>
            risk_level (mockResult t x d') = l)) \<and>
   (0 \<le> n \<and> n \<le> 99 \<longrightarrow>
      (\<exists>d'. valid_draws d' \<and> risk_score (mockResult t x d') = n \<and>
            risk_level (mockResult t x d') = l))"
  using submit_and_fulfil_result mockResult_score_range mockResult_same_score_any_level
    mockResult_any_score_any_level
  by blast

theorem C7_level_independent_of_score_witness:
  "valid_draws (draws_high double_0_24) \<and>
   risk_score (mockResult social (lit ''abc'') (draws_high double_0_24)) = 24 \<and>
   risk_level (mockResult social (lit ''abc'') (draws_high double_0_24)) = High \<and>
   (\<exists>d'. valid_draws d' \<and> risk_score (mockResult social (lit ''abc'') d') = 24 \<and>
         risk_level (mockResult social (lit ''abc'') d') = Low) \<and>
   (\<exists>d'. valid_draws d' \<and> risk_score (mockResult social (lit ''abc'') d') = 99 \<and>
         risk_level (mockResult social (lit ''abc'') d') = Medium)"
proof -
  let ?d = "draws_high double_0_24"
  have v: "valid_draws ?d"
    by (simp add: valid_draws_def draws_high_def double_0_24_def double_defs)
  have s: "risk_score (mockResult social (lit ''abc'') ?d) = 24"
    using rounded_products(1) by (simp add: mockResult_def draws_high_def)
  have h: "risk_level (mockResult social (lit ''abc'') ?d) = High"
    by (simp add: mockResult_def draws_high_def double_greater_def double_less_def
          literal_0_6_def)
  have n: "(0::int) \<le> 99 \<and> (99::int) \<le> 99" by simp
  from C7_level_independent_of_score [of ?d social "lit ''abc''" Low] v s
  have 1: "\<exists>d'. valid_draws d' \<and> risk_score (mockResult social (lit ''abc'') d') = 24 \<and>
      risk_level (mockResult social (lit ''abc'') d') = Low"
    by simp
  from C7_level_independent_of_score [of ?d social "lit ''abc''" Medium 99] n
  have 2: "\<exists>d'. valid_draws d' \<and> risk_score (mockResult social (lit ''abc'') d') = 99 \<and>
      risk_level (mockResult social (lit ''abc'') d') = Medium"
    by blast
  from v s h 1 2 show ?thesis by (intro conjI)
qed

text \<open>
  The claim as stated fails. After the user has typed \<^verbatim>\<open>abc\<close> and clicked Verify, the
  program stores the score 24 with the level Low or with the level High, and the score 70
  with the level Low or with the level High, depending on the draws. Equal scores carry
  different levels, and the level falls and rises with the score alike.
\<close>

theorem C7_counterexample:
  "valid_draws (draws_low double_0_24) \<and>
   map_option risk_score (results (ui (submit_and_fulfil (draws_low double_0_24)))) = Some 24 \<and>
   map_option risk_level (results (ui (submit_and_fulfil (draws_low double_0_24)))) = Some Low \<and>
   valid_draws (draws_high double_0_24) \<and>
   map_option risk_score (results (ui (submit_and_fulfil (draws_high double_0_24)))) = Some 24 \<and>
   map_option risk_level (results (ui (submit_and_fulfil (draws_high double_0_24)))) = Some High \<and>
   valid_draws (draws_low double_0_7) \<and>
   map_option risk_score (results (ui (submit_and_fulfil (draws_low double_0_7)))) = Some 70 \<and>
   map_option risk_level (results (ui (submit_and_fulfil (draws_low double_0_7)))) = Some Low \<and>
   valid_draws (draws_high double_0_7) \<and>
   map_option risk_score (results (ui (submit_and_fulfil (draws_high double_0_7)))) = Some 70 \<and>
   map_option risk_level (results (ui (submit_and_fulfil (draws_high double_0_7)))) = Some High"
proof -
  have v: "valid_draws (draws_low double_0_24)" "valid_draws (draws_high double_0_24)"
    "valid_draws (draws_low double_0_7)" "valid_draws (draws_high double_0_7)"
    by (simp_all add: valid_draws_def draws_low_def draws_high_def double_0_24_def
          double_0_7_def double_defs)
  have s: "risk_score (mockResult advisor (lit ''abc'') (draws_low double_0_24)) = 24"
    "risk_score (mockResult advisor (lit ''abc'') (draws_high double_0_24)) = 24"
    "risk_score (mockResult advisor (lit ''abc'') (draws_low double_0_7)) = 70"
    "risk_score (mockResult advisor (lit ''abc'') (draws_high double_0_7)) = 70"
    using rounded_products(1,2) by (simp_all add: mockResult_def draws_low_def draws_high_def)
  have l: "risk_level (mockResult advisor (lit ''abc'') (draws_low double_0_24)) = Low"
    "risk_level (mockResult advisor (lit ''abc'') (draws_high double_0_24)) = High"
    "risk_level (mockResult advisor (lit ''abc'') (draws_low double_0_7)) = Low"
    "risk_level (mockResult advisor (lit ''abc'') (draws_high double_0_7)) = High"
    by (simp_all add: mockResult_def draws_low_def draws_high_def double_greater_def
          double_less_def literal_0_6_def literal_0_3_def)
  show ?thesis
    by (simp add: submit_and_fulfil_result v s l)
qed

section \<open>Decimal numerals and the width of the bar\<close>

declare decimal.simps [simp del]

lemma digit_unit: "k < 10 \<Longrightarrow> unat (48 + of_nat k :: code_unit) = 48 + k"
proof -
  assume "k < 10"
  then have "unat (of_nat (48 + k) :: code_unit) = 48 + k"
    by (intro of_nat_inverse [OF refl]) simp
  then show ?thesis by simp
qed

lemma digit_unit_is_digit: "k < 10 \<Longrightarrow> isDecimalDigit (48 + of_nat k)"
  unfolding isDecimalDigit_def
  by (simp add: word_le_nat_alt digit_unit)

lemma decimal_nonempty: "decimal n \<noteq> []"
  by (subst decimal.simps) simp

lemma decimal_digits: "list_all isDecimalDigit (decimal n)"
proof (induction n rule: decimal.induct)
  case (1 n)
  show ?case
    by (subst decimal.simps) (use 1 in \<open>simp add: digit_unit_is_digit\<close>)
qed

lemma decimal_foldl: "foldl (\<lambda>a c. 10 * a + (unat c - 0x30)) 0 (decimal n) = n"
proof (induction n rule: decimal.induct)
  case (1 n)
  show ?case
  proof (cases "n < 10")
    case True
    then show ?thesis by (subst decimal.simps) (simp add: digit_unit)
  next
    case False
    with 1 show ?thesis by (subst decimal.simps) (simp add: digit_unit)
  qed
qed

lemma numeral_value_decimal: "numeral_value (decimal n) = Some n"
  by (simp add: numeral_value_def decimal_nonempty decimal_digits decimal_foldl)

lemma decimal_hd_not_minus: "hd (decimal n) \<noteq> 0x2D"
proof -
  have "isDecimalDigit (hd (decimal n))"
    using decimal_digits [of n] decimal_nonempty [of n]
    by (cases "decimal n") simp_all
  then show ?thesis by (auto simp: isDecimalDigit_def)
qed

lemma integer_value_Number_toString: "integer_value (Number_toString n) = Some n"
proof (cases "n < 0")
  case True
  then show ?thesis
    by (simp add: Number_toString_def integer_value_def lit_def numeral_value_decimal)
next
  case False
  obtain c cs where d: "decimal (nat n) = c # cs"
    using decimal_nonempty [of "nat n"] by (cases "decimal (nat n)") auto
  have "c \<noteq> 0x2D" using decimal_hd_not_minus [of "nat n"] d by simp
  moreover have "numeral_value (c # cs) = Some (nat n)"
    using numeral_value_decimal [of "nat n"] d by simp
  ultimately show ?thesis using False
    by (simp add: Number_toString_def integer_value_def d)
qed

lemma percentage_value_bar_width: "percentage_value (bar_width n) = Some n"
  by (simp add: percentage_value_def bar_width_def lit_def integer_value_Number_toString)

text \<open>
  Claim C6. The width of the fill is the score itself as a percentage: for every result
  whose score is an integer that prints as its decimal numeral, the width string is that
  numeral followed by the percent sign, and the percentage it denotes is the score, so
  0 to 100 is shown as 0% to 100%.
\<close>

theorem C6_bar_width:
  "safe_integer (risk_score r) \<Longrightarrow>
     bar_width (risk_score r) = Number_toString (risk_score r) @ lit ''%'' \<and>
     percentage_value (bar_width (risk_score r)) = Some (risk_score r)"
  by (simp add: percentage_value_bar_width) (simp add: bar_width_def)

theorem C6_bar_width_witness:
  "safe_integer 95 \<and> bar_width 95 = lit ''95%'' \<and> percentage_value (bar_width 95) = Some 95"
proof -
  let ?r = "\<lparr>risk_score = 95, risk_level = Low, reasons = [], ai_explanation = []\<rparr>"
  have s: "safe_integer (risk_score ?r)" by (simp add: safe_integer_def)
  have n: "Number_toString 95 @ lit ''%'' = lit ''95%''"
    by (simp add: Number_toString_def decimal.simps lit_def)
  have r: "risk_score ?r = 95" by simp
  have "bar_width 95 = Number_toString 95 @ lit ''%'' \<and>
    percentage_value (bar_width 95) = Some 95"
    using C6_bar_width [OF s] unfolding r .
  then have w: "bar_width 95 = Number_toString 95 @ lit ''%''"
    and p: "percentage_value (bar_width 95) = Some 95"
    by blast+
  from w n have "bar_width 95 = lit ''95%''" by (rule trans)
  moreover from s have "safe_integer 95" by simp
  ultimately show ?thesis using p by (intro conjI)
qed

section \<open>Percent-encoding\<close>

lemma hex_digit_unreserved: "d < 16 \<Longrightarrow> uriUnreserved (hex_digit d)"
proof -
  assume "d < 16"
  then have "d = 0 \<or> d = 1 \<or> d = 2 \<or> d = 3 \<or> d = 4 \<or> d = 5 \<or> d = 6 \<or> d = 7 \<or> d = 8 \<or>
    d = 9 \<or> d = 10 \<or> d = 11 \<or> d = 12 \<or> d = 13 \<or> d = 14 \<or> d = 15"
    by arith
  then show ?thesis
    by (elim disjE) (simp_all add: hex_digit_def uriUnreserved_def)
qed

lemma percent_octet_safe: "b < 256 \<Longrightarrow> list_all uri_safe (percent_octet b)"
proof -
  assume "b < 256"
  then have "b div 16 < 16" and "b mod 16 < 16" by arith+
  then show ?thesis
    by (simp add: percent_octet_def uri_safe_def hex_digit_unreserved)
qed

lemma utf8_octets_bound: "cp < 0x110000 \<Longrightarrow> list_all (\<lambda>b. b < 256) (utf8_octets cp)"
  unfolding utf8_octets_def by (simp; intro conjI impI; arith)

lemma percent_octets_safe:
  "list_all (\<lambda>b. b < 256) os \<Longrightarrow> list_all uri_safe (concat (map percent_octet os))"
  by (induction os) (simp_all add: percent_octet_safe)

lemma percent_escape_safe: "cp < 0x110000 \<Longrightarrow> list_all uri_safe (percent_escape cp)"
  unfolding percent_escape_def
  by (intro percent_octets_safe utf8_octets_bound)

lemma unat_code_unit_bound: "unat (c :: code_unit) < 0x110000"
  using unsigned_less [of c, where 'a = nat] by simp

lemma pair_bound:
  "isLeadingSurrogate c \<Longrightarrow> isTrailingSurrogate d \<Longrightarrow>
     UTF16SurrogatePairToCodePoint c d < 0x110000"
  unfolding isLeadingSurrogate_def isTrailingSurrogate_def
    UTF16SurrogatePairToCodePoint_def word_le_nat_alt
  by simp arith

lemma encodeURIComponent_safe:
  "encodeURIComponent s = Some e \<Longrightarrow> list_all uri_safe e"
proof (induction s arbitrary: e rule: encodeURIComponent.induct)
  case 1
  then show ?case by simp
next
  case (2 c cs)
  show ?case
  proof (cases "uriUnreserved c")
    case True
    with 2 show ?thesis by (auto simp: uri_safe_def)
  next
    case u: False
    show ?thesis
    proof (cases "\<not> isLeadingSurrogate c \<and> \<not> isTrailingSurrogate c")
      case True
      with u 2 show ?thesis
        by (auto simp: percent_escape_safe unat_code_unit_bound)
    next
      case s: False
      show ?thesis
      proof (cases "isTrailingSurrogate c")
        case True
        with u s "2.prems" show ?thesis by simp
      next
        case t: False
        with s have l: "isLeadingSurrogate c" by simp
        show ?thesis
        proof (cases cs)
          case Nil
          with u s t "2.prems" show ?thesis by simp
        next
          case (Cons d ds)
          show ?thesis
          proof (cases "isTrailingSurrogate d")
            case True
            with u s t Cons 2 l show ?thesis
              by (auto simp: percent_escape_safe pair_bound)
          next
            case False
            with u s t Cons "2.prems" show ?thesis by simp
          qed
        qed
      qed
    qed
  qed
qed


lemma unreserved_not_surrogate: "uriUnreserved c \<Longrightarrow> \<not> isSurrogate c"
  unfolding uriUnreserved_def isSurrogate_def isLeadingSurrogate_def isTrailingSurrogate_def
    word_le_nat_alt
  by (elim disjE) (simp_all, (arith+)?)

lemma lead_not_trail: "isLeadingSurrogate c \<Longrightarrow> \<not> isTrailingSurrogate c"
  unfolding isLeadingSurrogate_def isTrailingSurrogate_def word_le_nat_alt
  by simp

lemma encodeURIComponent_defined: "isWellFormed s \<Longrightarrow> encodeURIComponent s \<noteq> None"
proof (induction s rule: isWellFormed.induct)
  case 1
  show ?case by simp
next
  case (2 c cs)
  show ?case
  proof (cases "isLeadingSurrogate c")
    case True
    then have nu: "\<not> uriUnreserved c" and nt: "\<not> isTrailingSurrogate c"
      using unreserved_not_surrogate [of c] lead_not_trail [of c]
      by (auto simp: isSurrogate_def)
    from True "2.prems" obtain d ds where cs: "cs = d # ds"
      and d: "isTrailingSurrogate d" and w: "isWellFormed ds"
      by (cases cs) auto
    from "2.IH"(1) [OF True cs] w have "encodeURIComponent ds \<noteq> None" by simp
    with True nu nt cs d show ?thesis by auto
  next
    case False
    with "2.prems" have nt: "\<not> isTrailingSurrogate c" and w: "isWellFormed cs"
      by simp_all
    from "2.IH"(2) [OF False] w have "encodeURIComponent cs \<noteq> None" by simp
    with False nt show ?thesis by auto
  qed
qed

lemma encodeURIComponent_throws: "\<not> isWellFormed s \<Longrightarrow> encodeURIComponent s = None"
proof (induction s rule: isWellFormed.induct)
  case 1
  then show ?case by simp
next
  case (2 c cs)
  show ?case
  proof (cases "isLeadingSurrogate c")
    case True
    then have nu: "\<not> uriUnreserved c" and nt: "\<not> isTrailingSurrogate c"
      using unreserved_not_surrogate [of c] lead_not_trail [of c]
      by (auto simp: isSurrogate_def)
    show ?thesis
    proof (cases cs)
      case Nil
      with True nu nt show ?thesis by simp
    next
      case (Cons d ds)
      show ?thesis
      proof (cases "isTrailingSurrogate d")
        case False
        with True nu nt Cons show ?thesis by simp
      next
        case d: True
        with True Cons "2.prems" have "\<not> isWellFormed ds" by simp
        from "2.IH"(1) [OF True Cons this] True nu nt Cons d show ?thesis by simp
      qed
    qed
  next
    case False
    show ?thesis
    proof (cases "isTrailingSurrogate c")
      case True
      then have "\<not> uriUnreserved c"
        using unreserved_not_surrogate [of c] by (auto simp: isSurrogate_def)
      with False True show ?thesis by simp
    next
      case nt: False
      with False "2.prems" have "\<not> isWellFormed cs" by simp
      from "2.IH"(2) [OF False this] False nt show ?thesis by simp
    qed
  qed
qed

lemma encodeURIComponent_defined_iff: "encodeURIComponent s \<noteq> None \<longleftrightarrow> isWellFormed s"
  by (cases "isWellFormed s") (simp_all add: encodeURIComponent_defined encodeURIComponent_throws)

lemma isWellFormed_append:
  "isWellFormed a \<Longrightarrow> isWellFormed b \<Longrightarrow> isWellFormed (a @ b)"
proof (induction a rule: isWellFormed.induct)
  case 1
  then show ?case by simp
next
  case (2 c cs)
  show ?case
  proof (cases "isLeadingSurrogate c")
    case True
    with "2.prems" obtain d ds where cs: "cs = d # ds"
      and d: "isTrailingSurrogate d" and w: "isWellFormed ds"
      by (cases cs) auto
    from "2.IH"(1) [OF True cs w "2.prems"(2)] True cs d show ?thesis by simp
  next
    case False
    with "2.prems" "2.IH"(2) [OF False] show ?thesis by simp
  qed
qed

lemma isWellFormed_no_surrogates:
  "list_all (\<lambda>c. \<not> isSurrogate c) s \<Longrightarrow> isWellFormed s"
  by (induction s) (simp_all add: isSurrogate_def)

lemma of_char_code_unit: "unat (of_char c :: code_unit) = of_char c"
proof -
  have "(of_nat (of_char c) :: code_unit) = of_char c" by (rule of_nat_of_char)
  moreover have "(of_char c :: nat) < 65536"
    using nat_of_char_less_256 [of c] by linarith
  then have "(of_char c :: nat) < 2 ^ LENGTH(16)" by simp
  ultimately show ?thesis by (rule of_nat_inverse)
qed

lemma of_char_not_surrogate: "\<not> isSurrogate (of_char c)"
proof -
  have "(of_char c :: nat) < 55296"
    using nat_of_char_less_256 [of c] by linarith
  then show ?thesis
    unfolding isSurrogate_def isLeadingSurrogate_def isTrailingSurrogate_def word_le_nat_alt
      of_char_code_unit
    by simp
qed

lemma isWellFormed_lit: "isWellFormed (lit s)"
  by (rule isWellFormed_no_surrogates) (simp add: lit_def list_all_iff of_char_not_surrogate)


text \<open>Some values, as a browser gives them.\<close>

lemmas encode_defs = percent_escape_def utf8_octets_def percent_octet_def hex_digit_def
  uriUnreserved_def isLeadingSurrogate_def isTrailingSurrogate_def
  UTF16SurrogatePairToCodePoint_def lit_def

lemma encodeURIComponent_examples:
  "encodeURIComponent (lit ''Fraud Report - social Verification'') =
     Some (lit ''Fraud%20Report%20-%20social%20Verification'')"
  "encodeURIComponent (lit ''300% returns!'') = Some (lit ''300%25%20returns!'')"
  "encodeURIComponent [0x20AC] = Some (lit ''%E2%82%AC'')"
  "encodeURIComponent [0xE9] = Some (lit ''%C3%A9'')"
  "encodeURIComponent [0xD83D, 0xDE00] = Some (lit ''%F0%9F%98%80'')"
  "encodeURIComponent [0xD83D] = None"
  "encodeURIComponent [0xDE00, 0xD83D] = None"
  by (simp_all add: encode_defs)

section \<open>Complaint draft (handleReport)\<close>

lemma digit_not_surrogate: "isDecimalDigit c \<Longrightarrow> \<not> isSurrogate c"
  unfolding isDecimalDigit_def isSurrogate_def isLeadingSurrogate_def isTrailingSurrogate_def
    word_le_nat_alt
  by simp

lemma isWellFormed_decimal: "isWellFormed (decimal n)"
proof (rule isWellFormed_no_surrogates)
  show "list_all (\<lambda>c. \<not> isSurrogate c) (decimal n)"
    using decimal_digits [of n] by (simp add: list_all_iff digit_not_surrogate)
qed

lemma isWellFormed_Number_toString: "isWellFormed (Number_toString n)"
  by (simp add: Number_toString_def isWellFormed_append isWellFormed_lit isWellFormed_decimal)

lemma isWellFormed_tab_id: "isWellFormed (tab_id t)"
  by (cases t) (simp_all add: isWellFormed_lit)

lemma isWellFormed_join:
  "isWellFormed sep \<Longrightarrow> list_all isWellFormed xs \<Longrightarrow> isWellFormed (join sep xs)"
  by (induction sep xs rule: join.induct) (simp_all add: isWellFormed_append)

lemma handleReport_subject_wf: "isWellFormed (handleReport_subject s)"
  by (simp add: handleReport_subject_def isWellFormed_append isWellFormed_lit isWellFormed_tab_id)

lemma handleReport_body_wf:
  assumes "results s = Some r" and "isWellFormed (inputValue s)"
    and "list_all isWellFormed (reasons r)" and "isWellFormed (ai_explanation r)"
  shows "isWellFormed (handleReport_body s)"
  unfolding handleReport_body_def
  using assms
  by (simp add: isWellFormed_append isWellFormed_lit isWellFormed_tab_id
        isWellFormed_Number_toString isWellFormed_join)

lemma handleReport_defined:
  assumes "results s = Some r" and "isWellFormed (inputValue s)"
    and "list_all isWellFormed (reasons r)" and "isWellFormed (ai_explanation r)"
  shows "handleReport s \<noteq> None"
proof -
  have "encodeURIComponent (handleReport_subject s) \<noteq> None"
    by (rule encodeURIComponent_defined [OF handleReport_subject_wf])
  moreover have "encodeURIComponent (handleReport_body s) \<noteq> None"
    by (rule encodeURIComponent_defined [OF handleReport_body_wf [OF assms]])
  ultimately show ?thesis
    by (auto simp: handleReport_def)
qed

lemma sublist_here: "sublist x (x @ ss)"
  by (rule sublist_append_rightI)

lemma sublist_later: "sublist x ys \<Longrightarrow> sublist x (p @ ys)"
proof -
  assume "sublist x ys"
  then obtain ps ss where "ys = ps @ x @ ss" by (auto simp: sublist_def)
  then have "p @ ys = (p @ ps) @ x @ ss" by simp
  then show ?thesis unfolding sublist_def by blast
qed

lemma handleReport_body_embeds:
  assumes "results s = Some r"
  shows "sublist (tab_id (activeTab s)) (handleReport_body s)"
    and "sublist (inputValue s) (handleReport_body s)"
    and "sublist (Number_toString (risk_score r)) (handleReport_body s)"
    and "sublist (join (lit '', '') (reasons r)) (handleReport_body s)"
    and "sublist (ai_explanation r) (handleReport_body s)"
  unfolding handleReport_body_def assms option.case
  by ((rule sublist_here | rule sublist_later)+)+

lemma handleReport_subject_embeds:
  "sublist (tab_id (activeTab s)) (handleReport_subject s)"
  unfolding handleReport_subject_def by (rule sublist_appendI)

lemma handleReport_link:
  assumes "handleReport s = Some link"
  shows "\<exists>subject body.
    encodeURIComponent (handleReport_subject s) = Some subject \<and>
    encodeURIComponent (handleReport_body s) = Some body \<and>
    list_all uri_safe subject \<and> list_all uri_safe body \<and>
    link = lit ''mailto:complaints@sebi.gov.in?subject='' @ subject @ lit ''&body='' @ body"
  using assms
  by (auto simp: handleReport_def encodeURIComponent_safe split: option.splits)

lemma handleReport_ignores_loading: "handleReport (s\<lparr>loading := b\<rparr>) = handleReport s"
proof -
  have "handleReport_subject (s\<lparr>loading := b\<rparr>) = handleReport_subject s"
    by (simp add: handleReport_subject_def)
  moreover have "handleReport_body (s\<lparr>loading := b\<rparr>) = handleReport_body s"
    by (simp add: handleReport_body_def)
  ultimately show ?thesis by (simp only: handleReport_def)
qed


lemma handleReport_reads_three_fields:
  "activeTab s' = activeTab s \<Longrightarrow> inputValue s' = inputValue s \<Longrightarrow> results s' = results s \<Longrightarrow>
     handleReport s' = handleReport s"
proof -
  assume "activeTab s' = activeTab s" "inputValue s' = inputValue s" "results s' = results s"
  then have "handleReport_subject s' = handleReport_subject s"
    and "handleReport_body s' = handleReport_body s"
    by (simp_all add: handleReport_subject_def handleReport_body_def)
  then show ?thesis by (simp only: handleReport_def)
qed

text \<open>
  Claim C8, as the code has it. For a stored result whose score prints as a decimal
  numeral, the subject contains the category, and the body contains the category, the
  input text, the score, the reasons joined by a comma and a space (not by newlines) and
  the explanation. The link depends on the category, the text and the result only. It is
  the \<^verbatim>\<open>mailto:\<close> prefix followed by the percent-encoded subject, \<^verbatim>\<open>&body=\<close> and the
  percent-encoded body, both consisting of unreserved characters and percent signs only,
  and it exists whenever the text, the reasons and the explanation are well-formed.
\<close>

theorem C8_complaint_draft:
  "results s = Some r \<Longrightarrow> safe_integer (risk_score r) \<Longrightarrow>
     handleReport_subject s =
       lit ''Fraud Report - '' @ tab_id (activeTab s) @ lit '' Verification'' \<and>
     handleReport_body s =
       lit ''Dear SEBI,\<newline>\<newline>I would like to report a potential fraud case:\<newline>\<newline>Type: '' @
       tab_id (activeTab s) @ lit ''\<newline>Content: '' @ inputValue s @
       lit ''\<newline>Risk Score: '' @ Number_toString (risk_score r) @
       lit ''\<newline>Reasons: '' @ join (lit '', '') (reasons r) @
       lit ''\<newline>\<newline>AI Analysis: '' @ ai_explanation r @
       lit ''\<newline>\<newline>Please investigate this matter.\<newline>\<newline>Thank you.'' \<and>
     sublist (tab_id (activeTab s)) (handleReport_subject s) \<and>
     sublist (tab_id (activeTab s)) (handleReport_body s) \<and>
     sublist (inputValue s) (handleReport_body s) \<and>
     sublist (Number_toString (risk_score r)) (handleReport_body s) \<and>
     sublist (join (lit '', '') (reasons r)) (handleReport_body s) \<and>
     sublist (ai_explanation r) (handleReport_body s) \<and>
     (activeTab s' = activeTab s \<and> inputValue s' = inputValue s \<and> results s' = results s \<longrightarrow>
        handleReport s' = handleReport s) \<and>
     (isWellFormed (inputValue s) \<and> list_all isWellFormed (reasons r) \<and>
      isWellFormed (ai_explanation r) \<longrightarrow> handleReport s \<noteq> None) \<and>
     (\<forall>link. handleReport s = Some link \<longrightarrow>
        (\<exists>subject body.
           encodeURIComponent (handleReport_subject s) = Some subject \<and>
           encodeURIComponent (handleReport_body s) = Some body \<and>
           list_all uri_safe subject \<and> list_all uri_safe body \<and>
           link = lit ''mailto:complaints@sebi.gov.in?subject='' @ subject @
                  lit ''&body='' @ body))"
proof -
  assume r: "results s = Some r"
  have subj: "handleReport_subject s =
      lit ''Fraud Report - '' @ tab_id (activeTab s) @ lit '' Verification''"
    by (simp add: handleReport_subject_def)
  have body: "handleReport_body s =
      lit ''Dear SEBI,\<newline>\<newline>I would like to report a potential fraud case:\<newline>\<newline>Type: '' @
      tab_id (activeTab s) @ lit ''\<newline>Content: '' @ inputValue s @
      lit ''\<newline>Risk Score: '' @ Number_toString (risk_score r) @
      lit ''\<newline>Reasons: '' @ join (lit '', '') (reasons r) @
      lit ''\<newline>\<newline>AI Analysis: '' @ ai_explanation r @
      lit ''\<newline>\<newline>Please investigate this matter.\<newline>\<newline>Thank you.''"
    by (simp add: handleReport_body_def r)
  note e = handleReport_body_embeds [OF r]
  have pure: "activeTab s' = activeTab s \<and> inputValue s' = inputValue s \<and>
      results s' = results s \<longrightarrow> handleReport s' = handleReport s"
    using handleReport_reads_three_fields [of s' s] by blast
  have defined: "isWellFormed (inputValue s) \<and> list_all isWellFormed (reasons r) \<and>
      isWellFormed (ai_explanation r) \<longrightarrow> handleReport s \<noteq> None"
    using handleReport_defined [OF r] by blast
  have link: "\<forall>link. handleReport s = Some link \<longrightarrow>
      (\<exists>subject body.
         encodeURIComponent (handleReport_subject s) = Some subject \<and>
         encodeURIComponent (handleReport_body s) = Some body \<and>
         list_all uri_safe subject \<and> list_all uri_safe body \<and>
         link = lit ''mailto:complaints@sebi.gov.in?subject='' @ subject @
                lit ''&body='' @ body)"
    using handleReport_link [of s] by blast
  from subj body handleReport_subject_embeds [of s] e pure defined link
  show ?thesis by (intro conjI)
qed

theorem C8_complaint_draft_witness:
  "results example_state = Some example_result \<and>
   safe_integer (risk_score example_result) \<and>
   sublist (lit ''social'') (handleReport_body example_state) \<and>
   sublist (lit ''Buy XYZ for 300% returns'') (handleReport_body example_state) \<and>
   sublist (lit ''90'') (handleReport_body example_state) \<and>
   handleReport example_state \<noteq> None"
proof -
  have r: "results example_state = Some example_result"
    by (simp add: example_state_def)
  have i: "safe_integer (risk_score example_result)"
    by (simp add: example_result_def safe_integer_def)
  have t: "tab_id (activeTab example_state) = lit ''social''"
    and x: "inputValue example_state = lit ''Buy XYZ for 300% returns''"
    by (simp_all add: example_state_def)
  have n: "Number_toString (risk_score example_result) = lit ''90''"
    by (simp add: example_result_def Number_toString_def decimal.simps lit_def)
  have w: "isWellFormed (inputValue example_state) \<and>
      list_all isWellFormed (reasons example_result) \<and>
      isWellFormed (ai_explanation example_result)"
    by (simp add: example_state_def example_result_def isWellFormed_lit)
  note c = C8_complaint_draft [OF r i, of example_state]
  from c have 1: "sublist (tab_id (activeTab example_state)) (handleReport_body example_state)"
    by (elim conjE)
  from c have 2: "sublist (inputValue example_state) (handleReport_body example_state)"
    by (elim conjE)
  from c have 3: "sublist (Number_toString (risk_score example_result))
      (handleReport_body example_state)"
    by (elim conjE)
  from c have "isWellFormed (inputValue example_state) \<and>
      list_all isWellFormed (reasons example_result) \<and>
      isWellFormed (ai_explanation example_result) \<longrightarrow> handleReport example_state \<noteq> None"
    by (elim conjE)
  with w have 4: "handleReport example_state \<noteq> None" by (rule rev_mp)
  from r i 1 2 3 4 show ?thesis unfolding t x n by (intro conjI)
qed

text \<open>
  The claim as stated fails on the separator: for the example, the body contains the two
  reasons joined by a comma and a space, and does not contain them joined by a newline.
\<close>

theorem C8_counterexample:
  "results example_state = Some example_result \<and>
   sublist (join (lit '', '') (reasons example_result)) (handleReport_body example_state) \<and>
   \<not> sublist (join (lit ''\<newline>'') (reasons example_result)) (handleReport_body example_state)"
  by code_simp

lemma isWellFormed_mockResult:
  "isWellFormed x \<Longrightarrow>
     list_all isWellFormed (reasons (mockResult t x d)) \<and>
     isWellFormed (ai_explanation (mockResult t x d))"
  by (simp add: mockResult_def isWellFormed_append isWellFormed_lit
        isLeadingSurrogate_def isTrailingSurrogate_def)

lemma handleReport_recipient:
  "handleReport s = Some link \<Longrightarrow> prefix (lit ''mailto:complaints@sebi.gov.in?subject='') link"
  by (auto simp: handleReport_def split: option.splits)

lemma run_append: "run (xs @ ys) w = run ys (run xs w)"
  by (induction xs arbitrary: w) simp_all

lemma step_edit:
  "is_edit e \<Longrightarrow>
     loading (ui (step e w)) = loading (ui w) \<and> results (ui (step e w)) = results (ui w) \<and>
     inflight (step e w) = inflight w \<and> console (step e w) = console w \<and>
     opened (step e w) = opened w"
  by (cases e) simp_all

lemma run_edits:
  "list_all is_edit es \<Longrightarrow>
     loading (ui (run es w)) = loading (ui w) \<and> results (ui (run es w)) = results (ui w) \<and>
     inflight (run es w) = inflight w \<and> console (run es w) = console w \<and>
     opened (run es w) = opened w"
proof (induction es arbitrary: w)
  case Nil
  show ?case by simp
next
  case (Cons e es)
  then have "is_edit e" and "list_all is_edit es" by simp_all
  from step_edit [OF this(1), of w] Cons.IH [OF this(2), of "step e w"]
  show ?case by simp
qed

lemma idle_no_call:
  "\<not> loading (ui (run es initial_world)) \<Longrightarrow> inflight (run es initial_world) = []"
  using single_flight_run [OF single_flight_initial, of es]
  by (auto simp: single_flight_def)

text \<open>
  A request made with \<open>t1\<close> and \<open>x1\<close> from any idle state the page can reach, edits of
  the form while it is pending, its fulfilment, more edits, and at last the selection of
  \<open>t2\<close> and the text \<open>x2\<close>: the state then holds \<open>t2\<close>, \<open>x2\<close> and the result built from
  \<open>t1\<close> and \<open>x1\<close>.
\<close>

lemma run_request_then_edits:
  assumes idle: "\<not> loading (ui (run es0 initial_world))" and x1: "trim x1 \<noteq> []"
    and e1: "list_all is_edit edits1" and e2: "list_all is_edit edits2"
  shows "ui (run (es0 @ [ClickTab t1, Change x1, ClickVerify] @ edits1 @
      [Settle (Fulfilled d)] @ edits2 @ [ClickTab t2, Change x2]) initial_world) =
    \<lparr>activeTab = t2, loading = False, results = Some (mockResult t1 x1 d), inputValue = x2\<rparr>"
proof -
  define w0 where "w0 = run es0 initial_world"
  define w1 where "w1 = run [ClickTab t1, Change x1, ClickVerify] w0"
  define w2 where "w2 = run edits1 w1"
  define w3 where "w3 = step (Settle (Fulfilled d)) w2"
  define w4 where "w4 = run edits2 w3"
  define w5 where "w5 = run [ClickTab t2, Change x2] w4"
  have "inflight w0 = []" and "\<not> loading (ui w0)"
    unfolding w0_def using idle by (simp_all add: idle_no_call)
  then have 1: "inflight w1 = [\<lparr>call_activeTab = t1, call_inputValue = x1\<rparr>]"
    unfolding w1_def using x1 by (simp add: verify_disabled_def handleVerify_def)
  from run_edits [OF e1, of w1] 1
  have 2: "inflight w2 = [\<lparr>call_activeTab = t1, call_inputValue = x1\<rparr>]"
    by (simp add: w2_def)
  then have 3: "results (ui w3) = Some (mockResult t1 x1 d)" "\<not> loading (ui w3)"
    by (simp_all add: w3_def handleVerify_resume_def)
  from run_edits [OF e2, of w3] 3
  have 4: "results (ui w4) = Some (mockResult t1 x1 d)" "\<not> loading (ui w4)"
    by (simp_all add: w4_def)
  have "ui w5 = (ui w4)\<lparr>activeTab := t2, inputValue := x2\<rparr>"
    by (simp add: w5_def)
  also have "\<dots> = \<lparr>activeTab = t2, loading = False, results = Some (mockResult t1 x1 d),
      inputValue = x2\<rparr>"
    using 4 by (cases "ui w4") simp
  finally have "ui w5 = \<lparr>activeTab = t2, loading = False, results = Some (mockResult t1 x1 d),
      inputValue = x2\<rparr>" .
  moreover have "run (es0 @ [ClickTab t1, Change x1, ClickVerify] @ edits1 @
      [Settle (Fulfilled d)] @ edits2 @ [ClickTab t2, Change x2]) initial_world = w5"
    unfolding run_append w5_def w4_def w3_def w2_def w1_def w0_def by simp
  ultimately show ?thesis by simp
qed

lemma step_ClickReport:
  "results_panel (ui w) = ResultsCard r \<Longrightarrow>
     step ClickReport w =
       (case handleReport (ui w) of
          None \<Rightarrow> w
        | Some link \<Rightarrow> w\<lparr>opened := opened w @ [link]\<rparr>)"
  by (simp split: option.split)

lemma handleReport_unfolded:
  "handleReport \<lparr>activeTab = t2, loading = b, results = Some r, inputValue = x2\<rparr> =
     (case encodeURIComponent
             (lit ''Fraud Report - '' @ tab_id t2 @ lit '' Verification'') of
        None \<Rightarrow> None
      | Some subject \<Rightarrow>
          (case encodeURIComponent
                  (lit ''Dear SEBI,\<newline>\<newline>I would like to report a potential fraud case:\<newline>\<newline>Type: '' @
              tab_id t2 @ lit ''\<newline>Content: '' @ x2 @
              lit ''\<newline>Risk Score: '' @ Number_toString (risk_score r) @
              lit ''\<newline>Reasons: '' @ join (lit '', '') (reasons r) @
              lit ''\<newline>\<newline>AI Analysis: '' @ ai_explanation r @
              lit ''\<newline>\<newline>Please investigate this matter.\<newline>\<newline>Thank you.'') of
             None \<Rightarrow> None
           | Some body \<Rightarrow>
               Some (lit ''mailto:complaints@sebi.gov.in?subject='' @ subject @
                     lit ''&body='' @ body)))"
  by (simp add: handleReport_def handleReport_subject_def handleReport_body_def
        cong: option.case_cong)

lemma handleReport_of_state:
  "results s = Some r \<Longrightarrow>
     handleReport s =
       (case encodeURIComponent
               (lit ''Fraud Report - '' @ tab_id (activeTab s) @ lit '' Verification'') of
          None \<Rightarrow> None
        | Some subject \<Rightarrow>
            (case encodeURIComponent
                    (lit ''Dear SEBI,\<newline>\<newline>I would like to report a potential fraud case:\<newline>\<newline>Type: '' @
                     tab_id (activeTab s) @ lit ''\<newline>Content: '' @ inputValue s @
                     lit ''\<newline>Risk Score: '' @ Number_toString (risk_score r) @
                     lit ''\<newline>Reasons: '' @ join (lit '', '') (reasons r) @
                     lit ''\<newline>\<newline>AI Analysis: '' @ ai_explanation r @
                     lit ''\<newline>\<newline>Please investigate this matter.\<newline>\<newline>Thank you.'') of
               None \<Rightarrow> None
             | Some body \<Rightarrow>
                 Some (lit ''mailto:complaints@sebi.gov.in?subject='' @ subject @
                       lit ''&body='' @ body)))"
  by (simp add: handleReport_def handleReport_subject_def handleReport_body_def
        cong: option.case_cong)

lemma mockResult_safe_integer:
  "valid_draws d \<Longrightarrow> safe_integer (risk_score (mockResult t x d))"
  using mockResult_score_range [of d t x] by (simp add: safe_integer_def)

lemma example_mockResult:
  "mockResult advisor (lit ''old'') example_draws =
     \<lparr>risk_score = 42, risk_level = High,
      reasons = [lit ''Advisor not found in SEBI registry'',
                 lit ''AI analysis flagged potential fraud indicators''],
      ai_explanation =
        lit ''Based on our analysis of '' @ [0x22] @ lit ''old'' @ [0x22] @
        lit '', this appears to be suspicious content. Our AI detected several red flags including unregistered entities and promises of guaranteed returns.''\<rparr>"
  by (simp add: mockResult_def example_draws_def lit_def double_defs excess_bits.simps)

lemma trim_old: "trim (lit ''old'') \<noteq> []"
  by (simp add: trim_def lit_def isTrimSpace_def)

text \<open>
  Claim C9. Take any idle state the page can reach, a request made there with category
  \<open>t1\<close> and text \<open>x1\<close>, any edits of the form while the request is pending and after it
  is fulfilled, and at last the selection of \<open>t2\<close> and the text \<open>x2\<close>. The state then
  holds \<open>t2\<close>, \<open>x2\<close> and the result of the old request, and \<^verbatim>\<open>handleReport\<close> builds its
  link from exactly these: the fixed recipient, the percent-encoded subject with the new
  category, and the percent-encoded body with the new category and text and the old
  result's score, reasons and explanation. A click on Report appends that link, and
  nothing else, to the links opened; when both texts are well-formed the link exists
  and its two encoded parts consist of unreserved characters and percent signs only.
  In any state at all that holds a result, \<^verbatim>\<open>handleReport\<close> builds its link in this
  way from the category, the text and the result the state holds at that moment, and a
  link it builds starts with \<^verbatim>\<open>mailto:complaints@sebi.gov.in?subject=\<close>. The draws
  are doubles in the range of \<^verbatim>\<open>Math.random()\<close>, so the score prints as its decimal
  numeral.
\<close>

theorem C9_report_uses_current_state:
  "\<not> loading (ui (run es0 initial_world)) \<Longrightarrow> trim x1 \<noteq> [] \<Longrightarrow>
   list_all is_edit edits1 \<Longrightarrow> list_all is_edit edits2 \<Longrightarrow> valid_draws d \<Longrightarrow>
     (let w = run (es0 @ [ClickTab t1, Change x1, ClickVerify] @ edits1 @
                   [Settle (Fulfilled d)] @ edits2 @ [ClickTab t2, Change x2]) initial_world;
          r = mockResult t1 x1 d;
          subject_text = lit ''Fraud Report - '' @ tab_id t2 @ lit '' Verification'';
          body_text = lit ''Dear SEBI,\<newline>\<newline>I would like to report a potential fraud case:\<newline>\<newline>Type: '' @
              tab_id t2 @ lit ''\<newline>Content: '' @ x2 @
              lit ''\<newline>Risk Score: '' @ Number_toString (risk_score r) @
              lit ''\<newline>Reasons: '' @ join (lit '', '') (reasons r) @
              lit ''\<newline>\<newline>AI Analysis: '' @ ai_explanation r @
              lit ''\<newline>\<newline>Please investigate this matter.\<newline>\<newline>Thank you.''
      in ui w = \<lparr>activeTab = t2, loading = False, results = Some r, inputValue = x2\<rparr> \<and>
         safe_integer (risk_score r) \<and>
         handleReport (ui w) =
           (case encodeURIComponent subject_text of
              None \<Rightarrow> None
            | Some subject \<Rightarrow>
                (case encodeURIComponent body_text of
                   None \<Rightarrow> None
                 | Some body \<Rightarrow>
                     Some (lit ''mailto:complaints@sebi.gov.in?subject='' @ subject @
                           lit ''&body='' @ body))) \<and>
         step ClickReport w =
           (case handleReport (ui w) of
              None \<Rightarrow> w
            | Some link \<Rightarrow> w\<lparr>opened := opened w @ [link]\<rparr>) \<and>
         (isWellFormed x1 \<and> isWellFormed x2 \<longrightarrow>
            (\<exists>subject body.
               encodeURIComponent subject_text = Some subject \<and>
               encodeURIComponent body_text = Some body \<and>
               list_all uri_safe subject \<and> list_all uri_safe body \<and>
               opened (step ClickReport w) =
                 opened w @ [lit ''mailto:complaints@sebi.gov.in?subject='' @ subject @
                             lit ''&body='' @ body]))) \<and>
     (\<forall>s r'. results s = Some r' \<longrightarrow>
        handleReport s =
          (case encodeURIComponent
                  (lit ''Fraud Report - '' @ tab_id (activeTab s) @ lit '' Verification'') of
             None \<Rightarrow> None
           | Some subject \<Rightarrow>
               (case encodeURIComponent
                       (lit ''Dear SEBI,\<newline>\<newline>I would like to report a potential fraud case:\<newline>\<newline>Type: '' @
                        tab_id (activeTab s) @ lit ''\<newline>Content: '' @ inputValue s @
                        lit ''\<newline>Risk Score: '' @ Number_toString (risk_score r') @
                        lit ''\<newline>Reasons: '' @ join (lit '', '') (reasons r') @
                        lit ''\<newline>\<newline>AI Analysis: '' @ ai_explanation r' @
                        lit ''\<newline>\<newline>Please investigate this matter.\<newline>\<newline>Thank you.'') of
                  None \<Rightarrow> None
                | Some body \<Rightarrow>
                    Some (lit ''mailto:complaints@sebi.gov.in?subject='' @ subject @
                          lit ''&body='' @ body)))) \<and>
     (\<forall>s link. handleReport s = Some link \<longrightarrow>
        prefix (lit ''mailto:complaints@sebi.gov.in?subject='') link)"
proof -
  assume idle: "\<not> loading (ui (run es0 initial_world))" and x1: "trim x1 \<noteq> []"
    and e1: "list_all is_edit edits1" and e2: "list_all is_edit edits2"
    and vd: "valid_draws d"
  define w where "w = run (es0 @ [ClickTab t1, Change x1, ClickVerify] @ edits1 @
      [Settle (Fulfilled d)] @ edits2 @ [ClickTab t2, Change x2]) initial_world"
  define r where "r = mockResult t1 x1 d"
  define subject_text where
    "subject_text = lit ''Fraud Report - '' @ tab_id t2 @ lit '' Verification''"
  define body_text where
    "body_text = lit ''Dear SEBI,\<newline>\<newline>I would like to report a potential fraud case:\<newline>\<newline>Type: '' @
              tab_id t2 @ lit ''\<newline>Content: '' @ x2 @
              lit ''\<newline>Risk Score: '' @ Number_toString (risk_score r) @
              lit ''\<newline>Reasons: '' @ join (lit '', '') (reasons r) @
              lit ''\<newline>\<newline>AI Analysis: '' @ ai_explanation r @
              lit ''\<newline>\<newline>Please investigate this matter.\<newline>\<newline>Thank you.''"
  define link_of where "link_of = (\<lambda>subject body.
      lit ''mailto:complaints@sebi.gov.in?subject='' @ subject @ lit ''&body='' @ body)"
  have u: "ui w = \<lparr>activeTab = t2, loading = False, results = Some r, inputValue = x2\<rparr>"
    unfolding w_def r_def by (rule run_request_then_edits [OF idle x1 e1 e2])
  have h: "handleReport (ui w) =
      (case encodeURIComponent subject_text of
         None \<Rightarrow> None
       | Some subject \<Rightarrow>
           (case encodeURIComponent body_text of
              None \<Rightarrow> None
            | Some body \<Rightarrow> Some (link_of subject body)))"
    unfolding u subject_text_def body_text_def link_of_def by (rule handleReport_unfolded)
  have "results_panel (ui w) = ResultsCard r"
    by (simp add: u results_panel_def)
  then have c: "step ClickReport w =
      (case handleReport (ui w) of
         None \<Rightarrow> w
       | Some link \<Rightarrow> w\<lparr>opened := opened w @ [link]\<rparr>)"
    by (rule step_ClickReport)
  have o: "\<exists>subject body.
      encodeURIComponent subject_text = Some subject \<and>
      encodeURIComponent body_text = Some body \<and>
      list_all uri_safe subject \<and> list_all uri_safe body \<and>
      opened (step ClickReport w) = opened w @ [link_of subject body]"
    if wf: "isWellFormed x1 \<and> isWellFormed x2"
  proof -
    have "results (ui w) = Some r" and "isWellFormed (inputValue (ui w))"
      using wf by (simp_all add: u)
    moreover have "list_all isWellFormed (reasons r) \<and> isWellFormed (ai_explanation r)"
      unfolding r_def using wf by (intro isWellFormed_mockResult) simp
    ultimately have "handleReport (ui w) \<noteq> None"
      by (intro handleReport_defined [of "ui w" r]) simp_all
    with h obtain subject body where sb: "encodeURIComponent subject_text = Some subject"
      "encodeURIComponent body_text = Some body"
      by (auto split: option.splits)
    with h have "handleReport (ui w) = Some (link_of subject body)" by simp
    with c have "opened (step ClickReport w) = opened w @ [link_of subject body]" by simp
    moreover have "list_all uri_safe subject" and "list_all uri_safe body"
      using sb by (simp_all add: encodeURIComponent_safe)
    ultimately show ?thesis using sb by blast
  qed
  have p: "\<forall>s link. handleReport s = Some link \<longrightarrow>
      prefix (lit ''mailto:complaints@sebi.gov.in?subject='') link"
    using handleReport_recipient by blast
  have si: "safe_integer (risk_score r)"
    unfolding r_def by (rule mockResult_safe_integer [OF vd])
  have g: "\<forall>s r'. results s = Some r' \<longrightarrow>
      handleReport s =
        (case encodeURIComponent
                (lit ''Fraud Report - '' @ tab_id (activeTab s) @ lit '' Verification'') of
           None \<Rightarrow> None
         | Some subject \<Rightarrow>
             (case encodeURIComponent
                     (lit ''Dear SEBI,\<newline>\<newline>I would like to report a potential fraud case:\<newline>\<newline>Type: '' @
                      tab_id (activeTab s) @ lit ''\<newline>Content: '' @ inputValue s @
                      lit ''\<newline>Risk Score: '' @ Number_toString (risk_score r') @
                      lit ''\<newline>Reasons: '' @ join (lit '', '') (reasons r') @
                      lit ''\<newline>\<newline>AI Analysis: '' @ ai_explanation r' @
                      lit ''\<newline>\<newline>Please investigate this matter.\<newline>\<newline>Thank you.'') of
                None \<Rightarrow> None
              | Some body \<Rightarrow>
                  Some (lit ''mailto:complaints@sebi.gov.in?subject='' @ subject @
                        lit ''&body='' @ body)))"
    using handleReport_of_state by blast
  have first: "ui w = \<lparr>activeTab = t2, loading = False, results = Some r, inputValue = x2\<rparr> \<and>
      safe_integer (risk_score r) \<and>
      handleReport (ui w) =
        (case encodeURIComponent subject_text of
           None \<Rightarrow> None
         | Some subject \<Rightarrow>
             (case encodeURIComponent body_text of
                None \<Rightarrow> None
              | Some body \<Rightarrow> Some (link_of subject body))) \<and>
      step ClickReport w =
        (case handleReport (ui w) of
           None \<Rightarrow> w
         | Some link \<Rightarrow> w\<lparr>opened := opened w @ [link]\<rparr>) \<and>
      (isWellFormed x1 \<and> isWellFormed x2 \<longrightarrow>
         (\<exists>subject body.
            encodeURIComponent subject_text = Some subject \<and>
            encodeURIComponent body_text = Some body \<and>
            list_all uri_safe subject \<and> list_all uri_safe body \<and>
            opened (step ClickReport w) = opened w @ [link_of subject body]))"
    using u si h c o by blast
  show ?thesis
    unfolding Let_def w_def [symmetric] r_def [symmetric] subject_text_def [symmetric]
      body_text_def [symmetric]
    by (rule conjI [OF first [unfolded link_of_def] conjI [OF g p]])
qed

lemma example_run:
  "run example_events initial_world =
     \<lparr>ui = \<lparr>activeTab = social, loading = False,
             results = Some (mockResult advisor (lit ''old'') example_draws),
             inputValue = lit ''new''\<rparr>,
      inflight = [], console = [], opened = []\<rparr>"
  by (simp add: example_events_def initial_world_def initial_state_def verify_disabled_def
        handleVerify_def handleVerify_resume_def trim_old)

lemma example_subject_encoded:
  "encodeURIComponent (lit ''Fraud Report - '' @ tab_id social @ lit '' Verification'') =
     Some (lit ''Fraud%20Report%20-%20social%20Verification'')"
  by (simp add: encode_defs)

lemma example_body_encoded:
  "encodeURIComponent
     (lit ''Dear SEBI,\<newline>\<newline>I would like to report a potential fraud case:\<newline>\<newline>Type: '' @
      tab_id social @ lit ''\<newline>Content: '' @ lit ''new'' @
      lit ''\<newline>Risk Score: '' @
      Number_toString (risk_score (mockResult advisor (lit ''old'') example_draws)) @
      lit ''\<newline>Reasons: '' @
      join (lit '', '') (reasons (mockResult advisor (lit ''old'') example_draws)) @
      lit ''\<newline>\<newline>AI Analysis: '' @
      ai_explanation (mockResult advisor (lit ''old'') example_draws) @
      lit ''\<newline>\<newline>Please investigate this matter.\<newline>\<newline>Thank you.'') =
     Some (lit ''Dear%20SEBI%2C%0A%0AI%20would%20like%20to%20report%20a%20potential%20fraud%20case%3A%0A%0AType%3A%20social%0AContent%3A%20new%0ARisk%20Score%3A%2042%0AReasons%3A%20Advisor%20not%20found%20in%20SEBI%20registry%2C%20AI%20analysis%20flagged%20potential%20fraud%20indicators%0A%0AAI%20Analysis%3A%20Based%20on%20our%20analysis%20of%20%22old%22%2C%20this%20appears%20to%20be%20suspicious%20content.%20Our%20AI%20detected%20several%20red%20flags%20including%20unregistered%20entities%20and%20promises%20of%20guaranteed%20returns.%0A%0APlease%20investigate%20this%20matter.%0A%0AThank%20you.'')"
  unfolding example_mockResult
  by (simp add: encode_defs Number_toString_def decimal.simps)

theorem C9_report_uses_current_state_witness:
  "\<not> loading (ui (run [] initial_world)) \<and> trim (lit ''old'') \<noteq> [] \<and>
   list_all is_edit [ClickTab anomaly] \<and> list_all is_edit [Change (lit ''draft'')] \<and>
   valid_draws example_draws \<and>
   ui (run example_events initial_world) =
     \<lparr>activeTab = social, loading = False,
      results = Some (mockResult advisor (lit ''old'') example_draws),
      inputValue = lit ''new''\<rparr> \<and>
   risk_score (mockResult advisor (lit ''old'') example_draws) = 42 \<and>
   opened (step ClickReport (run example_events initial_world)) =
     [lit ''mailto:complaints@sebi.gov.in?subject=Fraud%20Report%20-%20social%20Verification&body=Dear%20SEBI%2C%0A%0AI%20would%20like%20to%20report%20a%20potential%20fraud%20case%3A%0A%0AType%3A%20social%0AContent%3A%20new%0ARisk%20Score%3A%2042%0AReasons%3A%20Advisor%20not%20found%20in%20SEBI%20registry%2C%20AI%20analysis%20flagged%20potential%20fraud%20indicators%0A%0AAI%20Analysis%3A%20Based%20on%20our%20analysis%20of%20%22old%22%2C%20this%20appears%20to%20be%20suspicious%20content.%20Our%20AI%20detected%20several%20red%20flags%20including%20unregistered%20entities%20and%20promises%20of%20guaranteed%20returns.%0A%0APlease%20investigate%20this%20matter.%0A%0AThank%20you.'']"
proof -
  let ?w = "run example_events initial_world"
  let ?r = "mockResult advisor (lit ''old'') example_draws"
  have i: "\<not> loading (ui (run [] initial_world))"
    by (simp add: initial_world_def initial_state_def)
  have e1: "list_all is_edit [ClickTab anomaly]"
    and e2: "list_all is_edit [Change (lit ''draft'')]"
    by simp_all
  have ev: "[] @ [ClickTab advisor, Change (lit ''old''), ClickVerify] @ [ClickTab anomaly] @
      [Settle (Fulfilled example_draws)] @ [Change (lit ''draft'')] @
      [ClickTab social, Change (lit ''new'')] = example_events"
    by (simp add: example_events_def)
  have wf: "isWellFormed (lit ''old'') \<and> isWellFormed (lit ''new'')"
    by (simp add: isWellFormed_lit)
  have vd: "valid_draws example_draws"
    by (simp add: valid_draws_def example_draws_def double_defs)
  note c = C9_report_uses_current_state [OF i trim_old e1 e2 vd,
      of advisor social "lit ''new''", unfolded Let_def ev]
  from c have u: "ui ?w = \<lparr>activeTab = social, loading = False, results = Some ?r,
      inputValue = lit ''new''\<rparr>"
    by (elim conjE)
  from c wf obtain subject body where sb:
    "encodeURIComponent (lit ''Fraud Report - '' @ tab_id social @ lit '' Verification'') =
       Some subject"
    "encodeURIComponent
       (lit ''Dear SEBI,\<newline>\<newline>I would like to report a potential fraud case:\<newline>\<newline>Type: '' @
        tab_id social @ lit ''\<newline>Content: '' @ lit ''new'' @
        lit ''\<newline>Risk Score: '' @ Number_toString (risk_score ?r) @
        lit ''\<newline>Reasons: '' @ join (lit '', '') (reasons ?r) @
        lit ''\<newline>\<newline>AI Analysis: '' @ ai_explanation ?r @
        lit ''\<newline>\<newline>Please investigate this matter.\<newline>\<newline>Thank you.'') = Some body"
    and op: "opened (step ClickReport ?w) =
       opened ?w @ [lit ''mailto:complaints@sebi.gov.in?subject='' @ subject @
                    lit ''&body='' @ body]"
    by (elim conjE) blast
  from sb(1) have s: "subject = lit ''Fraud%20Report%20-%20social%20Verification''"
    unfolding example_subject_encoded by simp
  from sb(2) have b: "body = lit ''Dear%20SEBI%2C%0A%0AI%20would%20like%20to%20report%20a%20potential%20fraud%20case%3A%0A%0AType%3A%20social%0AContent%3A%20new%0ARisk%20Score%3A%2042%0AReasons%3A%20Advisor%20not%20found%20in%20SEBI%20registry%2C%20AI%20analysis%20flagged%20potential%20fraud%20indicators%0A%0AAI%20Analysis%3A%20Based%20on%20our%20analysis%20of%20%22old%22%2C%20this%20appears%20to%20be%20suspicious%20content.%20Our%20AI%20detected%20several%20red%20flags%20including%20unregistered%20entities%20and%20promises%20of%20guaranteed%20returns.%0A%0APlease%20investigate%20this%20matter.%0A%0AThank%20you.''"
    unfolding example_body_encoded by simp
  have "opened ?w = []" unfolding example_run by simp
  with op have l: "opened (step ClickReport ?w) =
     [lit ''mailto:complaints@sebi.gov.in?subject=Fraud%20Report%20-%20social%20Verification&body=Dear%20SEBI%2C%0A%0AI%20would%20like%20to%20report%20a%20potential%20fraud%20case%3A%0A%0AType%3A%20social%0AContent%3A%20new%0ARisk%20Score%3A%2042%0AReasons%3A%20Advisor%20not%20found%20in%20SEBI%20registry%2C%20AI%20analysis%20flagged%20potential%20fraud%20indicators%0A%0AAI%20Analysis%3A%20Based%20on%20our%20analysis%20of%20%22old%22%2C%20this%20appears%20to%20be%20suspicious%20content.%20Our%20AI%20detected%20several%20red%20flags%20including%20unregistered%20entities%20and%20promises%20of%20guaranteed%20returns.%0A%0APlease%20investigate%20this%20matter.%0A%0AThank%20you.'']"
    unfolding s b by (simp add: lit_def)
  have sc: "risk_score ?r = 42" unfolding example_mockResult by simp
  from i trim_old e1 e2 vd u sc l show ?thesis by (intro conjI)
qed

text \<open>
  An unpaired surrogate in the text makes \<^verbatim>\<open>encodeURIComponent\<close> throw: no link is built.
\<close>

lemma handleReport_throws_on_lone_surrogate:
  "handleReport (example_state\<lparr>inputValue := [0xD83D]\<rparr>) = None"
  by (simp add: handleReport_def handleReport_subject_def handleReport_body_def
        example_state_def encode_defs)

section \<open>Score colours\<close>

lemma score_colours_distinct:
  "lit ''text-red-600'' \<noteq> lit ''text-yellow-600''"
  "lit ''text-red-600'' \<noteq> lit ''text-green-600''"
  "lit ''text-yellow-600'' \<noteq> lit ''text-green-600''"
  "lit ''#DC2626'' \<noteq> lit ''#D97706''"
  "lit ''#DC2626'' \<noteq> lit ''#16A34A''"
  "lit ''#D97706'' \<noteq> lit ''#16A34A''"
  by (simp_all add: lit_def)

text \<open>
  Claim C5. A score below 40 gets the red class and the red fill, a score from 40 up to
  but not including 70 the yellow (amber) class and fill, a score of 70 or more the green
  class and fill, for every finite score, integer or not; 95 is green and 35 is red, for
  the numeral and for the bar alike.
\<close>

theorem C5_score_banding:
  "(score < 40 \<longrightarrow>
      getScoreColor (Finite score) = lit ''text-red-600'' \<and>
      bar_backgroundColor (Finite score) = lit ''#DC2626'') \<and>
   (40 \<le> score \<and> score < 70 \<longrightarrow>
      getScoreColor (Finite score) = lit ''text-yellow-600'' \<and>
      bar_backgroundColor (Finite score) = lit ''#D97706'') \<and>
   (70 \<le> score \<longrightarrow>
      getScoreColor (Finite score) = lit ''text-green-600'' \<and>
      bar_backgroundColor (Finite score) = lit ''#16A34A'') \<and>
   getScoreColor (number_of_int 95) = lit ''text-green-600'' \<and>
   bar_backgroundColor (number_of_int 95) = lit ''#16A34A'' \<and>
   getScoreColor (number_of_int 35) = lit ''text-red-600'' \<and>
   bar_backgroundColor (number_of_int 35) = lit ''#DC2626''"
  by (simp add: getScoreColor_def bar_backgroundColor_def number_of_int_def)

theorem C5_score_banding_witness:
  "getScoreColor (Finite 39.5) = lit ''text-red-600'' \<and>
   bar_backgroundColor (Finite 39.5) = lit ''#DC2626'' \<and>
   getScoreColor (Finite 40) = lit ''text-yellow-600'' \<and>
   bar_backgroundColor (Finite 40) = lit ''#D97706'' \<and>
   getScoreColor (Finite 69) = lit ''text-yellow-600'' \<and>
   bar_backgroundColor (Finite 69) = lit ''#D97706'' \<and>
   getScoreColor (Finite 70) = lit ''text-green-600'' \<and>
   bar_backgroundColor (Finite 70) = lit ''#16A34A''"
  using C5_score_banding [of "39.5"] C5_score_banding [of 40] C5_score_banding [of 69]
    C5_score_banding [of 70]
  by simp

text \<open>
  Claim C10. The banding has no failing branch and covers every Number, the infinities
  and NaN included: each score gets one of three pairwise different classes and one of
  three pairwise different fills, every score below 0 the red ones and every score above
  100 the green ones.
\<close>

theorem C10_banding_total:
  "(getScoreColor score = lit ''text-red-600'' \<or> getScoreColor score = lit ''text-yellow-600'' \<or>
    getScoreColor score = lit ''text-green-600'') \<and>
   (bar_backgroundColor score = lit ''#DC2626'' \<or> bar_backgroundColor score = lit ''#D97706'' \<or>
    bar_backgroundColor score = lit ''#16A34A'') \<and>
   (js_less score (Finite 0) \<longrightarrow>
      getScoreColor score = lit ''text-red-600'' \<and> bar_backgroundColor score = lit ''#DC2626'') \<and>
   (js_less (Finite 100) score \<longrightarrow>
      getScoreColor score = lit ''text-green-600'' \<and> bar_backgroundColor score = lit ''#16A34A'') \<and>
   lit ''text-red-600'' \<noteq> lit ''text-yellow-600'' \<and>
   lit ''text-red-600'' \<noteq> lit ''text-green-600'' \<and>
   lit ''text-yellow-600'' \<noteq> lit ''text-green-600'' \<and>
   lit ''#DC2626'' \<noteq> lit ''#D97706'' \<and> lit ''#DC2626'' \<noteq> lit ''#16A34A'' \<and>
   lit ''#D97706'' \<noteq> lit ''#16A34A''"
  by (cases score)
    (simp_all add: getScoreColor_def bar_backgroundColor_def score_colours_distinct)

theorem C10_banding_total_witness:
  "js_less (number_of_int (- 7)) (Finite 0) \<and>
   getScoreColor (number_of_int (- 7)) = lit ''text-red-600'' \<and>
   bar_backgroundColor (number_of_int (- 7)) = lit ''#DC2626'' \<and>
   js_less (Finite 100) (number_of_int 250) \<and>
   getScoreColor (number_of_int 250) = lit ''text-green-600'' \<and>
   bar_backgroundColor (number_of_int 250) = lit ''#16A34A'' \<and>
   js_less NegInfinity (Finite 0) \<and> getScoreColor NegInfinity = lit ''text-red-600'' \<and>
   js_less (Finite 100) PosInfinity \<and> getScoreColor PosInfinity = lit ''text-green-600''"
proof -
  have a: "js_less (number_of_int (- 7)) (Finite 0)"
    and b: "js_less (Finite 100) (number_of_int 250)"
    and c: "js_less NegInfinity (Finite 0)"
    and d: "js_less (Finite 100) PosInfinity"
    by (simp_all add: number_of_int_def)
  from C10_banding_total [of "number_of_int (- 7)"] a
  have 1: "getScoreColor (number_of_int (- 7)) = lit ''text-red-600'' \<and>
    bar_backgroundColor (number_of_int (- 7)) = lit ''#DC2626''"
    by simp
  from C10_banding_total [of "number_of_int 250"] b
  have 2: "getScoreColor (number_of_int 250) = lit ''text-green-600'' \<and>
    bar_backgroundColor (number_of_int 250) = lit ''#16A34A''"
    by simp
  from C10_banding_total [of NegInfinity] c
  have 3: "getScoreColor NegInfinity = lit ''text-red-600''"
    by simp
  from C10_banding_total [of PosInfinity] d
  have 4: "getScoreColor PosInfinity = lit ''text-green-600''"
    by simp
  from a b c d 1 2 3 4 show ?thesis by simp
qed

text \<open>NaN is below nothing, so it falls through both tests to the green branch.\<close>

lemma getScoreColor_NaN:
  "getScoreColor NaN = lit ''text-green-600''" "bar_backgroundColor NaN = lit ''#16A34A''"
  by (simp_all add: getScoreColor_def bar_backgroundColor_def)

end
